theory Spec2Isabelle
  imports Main "HOL-Library.Sublist"
begin

section \<open>Strings\<close>

text \<open>
  A JavaScript string is modelled as a \<^typ>\<open>string\<close>: one \<^typ>\<open>char\<close> per code unit,
  restricted to the code units below 256. \<open>length\<close> is \<^verbatim>\<open>.length\<close>, \<open>take n\<close> is
  \<^verbatim>\<open>.slice(0, n)\<close> and \<open>@\<close> is concatenation.
\<close>

text \<open>\<^verbatim>\<open>String.prototype.trim\<close>: the white space and line terminators of the language that
  lie below 256 (TAB, LF, VT, FF, CR, SP, NBSP) are removed at both ends.\<close>

definition isWhiteSpace :: \<open>char \<Rightarrow> bool\<close> where
  \<open>isWhiteSpace c =
     (c \<in> set [CHR 0x09, CHR 0x0A, CHR 0x0B, CHR 0x0C, CHR 0x0D, CHR 0x20, CHR 0xA0])\<close>

definition trim :: \<open>string \<Rightarrow> string\<close> where
  \<open>trim s = rev (dropWhile isWhiteSpace (rev (dropWhile isWhiteSpace s)))\<close>

text \<open>\<^verbatim>\<open>s.includes(t)\<close>: \<open>t\<close> occurs in \<open>s\<close> as a contiguous run.\<close>

fun str_includes :: \<open>string \<Rightarrow> string \<Rightarrow> bool\<close> where
  \<open>str_includes [] t = (t = [])\<close>
| \<open>str_includes (c # cs) t = (prefix t (c # cs) \<or> str_includes cs t)\<close>

text \<open>The character class \<^verbatim>\<open>\d\<close> of a regular expression without the unicode flag.\<close>

definition isDigit :: \<open>char \<Rightarrow> bool\<close> where
  \<open>isDigit c = ((48::nat) \<le> of_char c \<and> of_char c \<le> (57::nat))\<close>

text \<open>\<^verbatim>\<open>/^\d{4}-\d{2}-\d{2}/\<close> tested against a string (no flags: \<^verbatim>\<open>^\<close> is the start of
  the string).\<close>

fun matchesDatePrefix :: \<open>string \<Rightarrow> bool\<close> where
  \<open>matchesDatePrefix (y1 # y2 # y3 # y4 # s1 # m1 # m2 # s2 # d1 # d2 # rest) =
     (isDigit y1 \<and> isDigit y2 \<and> isDigit y3 \<and> isDigit y4 \<and> s1 = CHR ''-'' \<and>
      isDigit m1 \<and> isDigit m2 \<and> s2 = CHR ''-'' \<and> isDigit d1 \<and> isDigit d2)\<close>
| \<open>matchesDatePrefix _ = False\<close>

text \<open>The date-prefix shape in the words of the specification: four digits, dash, two
  digits, dash, two digits, at the start of the string.\<close>

definition date_prefix_shape :: \<open>string \<Rightarrow> bool\<close> where
  \<open>date_prefix_shape s =
     (\<exists>y m d rest. s = y @ ''-'' @ m @ ''-'' @ d @ rest \<and>
        length y = 4 \<and> length m = 2 \<and> length d = 2 \<and>
        (\<forall>c \<in> set (y @ m @ d). isDigit c))\<close>

text \<open>Truthiness of an optional string: \<^verbatim>\<open>undefined\<close> and \<^verbatim>\<open>''\<close> are falsy.\<close>

definition truthy :: \<open>string option \<Rightarrow> bool\<close> where
  \<open>truthy v = (case v of None \<Rightarrow> False | Some s \<Rightarrow> s \<noteq> [])\<close>

subsection \<open>\<^verbatim>\<open>src/gateway/cli.ts\<close>\<close>

text \<open>\<^verbatim>\<open>shellEscapeArg\<close>: every single quote becomes \<^verbatim>\<open>'\''\<close> and the whole is wrapped in
  single quotes.\<close>

definition shellEscapeArg :: \<open>string \<Rightarrow> string\<close> where
  \<open>shellEscapeArg v =
     [CHR 0x27] @
     concat (map (\<lambda>c. if c = CHR 0x27 then [CHR 0x27, CHR 0x5C, CHR 0x27, CHR 0x27] else [c]) v) @
     [CHR 0x27]\<close>

section \<open>Data model of the sync module\<close>

record SyncResult =
  success :: bool
  lastSync :: \<open>string option\<close>
  error :: \<open>string option\<close>
  details :: \<open>string option\<close>

definition CONFIG_CHECK_TIMEOUT_MS :: nat where \<open>CONFIG_CHECK_TIMEOUT_MS = 5000\<close>
definition RSYNC_CHECK_TIMEOUT_MS :: nat where \<open>RSYNC_CHECK_TIMEOUT_MS = 5000\<close>
definition POLL_INTERVAL_MS :: nat where \<open>POLL_INTERVAL_MS = 200\<close>
definition MAX_LOG_CHARS :: nat where \<open>MAX_LOG_CHARS = 2000\<close>
definition OPENCLAW_CONFIG_PATH :: string where
  \<open>OPENCLAW_CONFIG_PATH = ''/root/.openclaw/openclaw.json''\<close>
definition CLAWDBOT_CONFIG_PATH :: string where
  \<open>CLAWDBOT_CONFIG_PATH = ''/root/.clawdbot/clawdbot.json''\<close>

record CommandResult =
  command :: string
  status :: string
  exitCode :: \<open>int option\<close>
  stdout :: string
  stderr :: string
  durationMs :: nat
  didComplete :: bool

record ConfigCheckResult = CommandResult +
  path :: string
  exists :: bool

text \<open>The value of \<^verbatim>\<open>proc.getLogs()\<close>; either stream may be undefined (the code reads them
  with \<^verbatim>\<open>??\<close> and \<^verbatim>\<open>?.\<close>).\<close>

record Logs =
  logs_stdout :: \<open>string option\<close>
  logs_stderr :: \<open>string option\<close>

text \<open>The fields of \<^verbatim>\<open>MoltbotEnv\<close> (\<^verbatim>\<open>src/types.ts\<close>) that the sync reads or hands
  to the mount; the record is extensible for the others.\<close>

record MoltbotEnv =
  R2_ACCESS_KEY_ID :: \<open>string option\<close>
  R2_SECRET_ACCESS_KEY :: \<open>string option\<close>
  R2_BUCKET_NAME :: \<open>string option\<close>
  CF_ACCOUNT_ID :: \<open>string option\<close>

text \<open>A thrown value: an \<^verbatim>\<open>Error\<close> with its message, or anything else.\<close>

datatype exn = Error string | NonError

text \<open>\<^verbatim>\<open>err instanceof Error ? err.message : 'Unknown error'\<close>\<close>

fun errMessage :: \<open>exn \<Rightarrow> string\<close> where
  \<open>errMessage (Error m) = m\<close>
| \<open>errMessage NonError = ''Unknown error''\<close>

text \<open>The values handed to \<^verbatim>\<open>JSON.stringify\<close>.\<close>

datatype json =
  JNull | JBool bool | JNum int | JStr string | JArr \<open>json list\<close> | JObj \<open>(string \<times> json) list\<close>

section \<open>Collaborators and effects\<close>

text \<open>
  The code runs against collaborators that are not part of the module: the \<^verbatim>\<open>Sandbox\<close>
  object and its process handles, \<^verbatim>\<open>waitForProcess\<close> (\<^verbatim>\<open>./utils\<close>),
  \<^verbatim>\<open>mountR2Storage\<close> (\<^verbatim>\<open>./r2\<close>), the constant \<^verbatim>\<open>R2_MOUNT_PATH\<close> (\<^verbatim>\<open>../config\<close>),
  timers and \<^verbatim>\<open>JSON.stringify\<close>. They are parameters of the model. \<open>'x\<close> is the state
  of the world outside the module, \<open>'p\<close> the type of process handles.

  An awaited call reads the clock and the outside state, returns normally or throws,
  leaves a new outside state and takes some time. Every awaited call settles: a promise
  that stays pending for ever is not modelled. The clock never runs backwards.
  \<^verbatim>\<open>proc.status\<close> and \<^verbatim>\<open>proc.exitCode\<close> are plain property reads of the current
  state.
\<close>

type_synonym ('x, 'a) remote = \<open>nat \<Rightarrow> 'x \<Rightarrow> (exn + 'a) \<times> 'x \<times> nat\<close>

record ('x, 'p) collaborators =
  sb_startProcess :: \<open>string \<Rightarrow> ('x, 'p) remote\<close>
  proc_status :: \<open>'p \<Rightarrow> nat \<Rightarrow> 'x \<Rightarrow> string\<close>
  proc_exitCode :: \<open>'p \<Rightarrow> nat \<Rightarrow> 'x \<Rightarrow> int option\<close>
  proc_getLogs :: \<open>'p \<Rightarrow> ('x, Logs) remote\<close>
  ext_waitForProcess :: \<open>'p \<Rightarrow> nat \<Rightarrow> nat option \<Rightarrow> ('x, unit) remote\<close>
  ext_mountR2Storage :: \<open>MoltbotEnv \<Rightarrow> ('x, bool) remote\<close>
  ext_R2_MOUNT_PATH :: string
  timer_late :: \<open>nat \<Rightarrow> nat \<Rightarrow> 'x \<Rightarrow> 'x \<times> nat\<close>
  JSON_stringify :: \<open>json \<Rightarrow> string\<close>

text \<open>
  Modelled from the spec: \<^verbatim>\<open>mountR2Storage\<close> (\<^verbatim>\<open>./r2\<close>) is code of the repository
  that is not among the sources at hand. The specification gives the mount only an
  interface, \<^verbatim>\<open>mount(credentials) -> boolean\<close>, idempotent, of which "only its boolean
  success/failure contract matters": a call resolves to true or to false.
\<close>

definition mountR2Storage_contract :: \<open>('x, 'p) collaborators \<Rightarrow> bool\<close> where
  \<open>mountR2Storage_contract sb =
     (\<forall>env t x. \<exists>mounted x' dt. ext_mountR2Storage sb env t x = (Inr mounted, x', dt))\<close>

text \<open>The calls made on the collaborators, in order.\<close>

datatype 'p call =
  StartProcess string
| WaitForProcess 'p nat \<open>nat option\<close>
| GetLogs 'p
| MountR2Storage

record ('x, 'p) world =
  clock :: nat
  ext :: 'x
  calls :: \<open>'p call list\<close>

text \<open>A computation either throws or returns, and leaves a world.\<close>

type_synonym ('x, 'p, 'a) io = \<open>('x, 'p) world \<Rightarrow> (exn + 'a) \<times> ('x, 'p) world\<close>

definition io_return :: \<open>'a \<Rightarrow> ('x, 'p, 'a) io\<close> where
  \<open>io_return v w = (Inr v, w)\<close>

text \<open>\<^verbatim>\<open>const v = await m; k(v)\<close>: an exception of \<open>m\<close> skips \<open>k\<close>.\<close>

definition io_bind :: \<open>('x, 'p, 'a) io \<Rightarrow> ('a \<Rightarrow> ('x, 'p, 'b) io) \<Rightarrow> ('x, 'p, 'b) io\<close> where
  \<open>io_bind m k w = (case m w of (Inl e, w') \<Rightarrow> (Inl e, w') | (Inr v, w') \<Rightarrow> k v w')\<close>

text \<open>\<^verbatim>\<open>try { m } catch (err) { h(err) }\<close>\<close>

definition io_catch :: \<open>('x, 'p, 'a) io \<Rightarrow> (exn \<Rightarrow> ('x, 'p, 'a) io) \<Rightarrow> ('x, 'p, 'a) io\<close> where
  \<open>io_catch m h w = (case m w of (Inl e, w') \<Rightarrow> h e w' | (Inr v, w') \<Rightarrow> (Inr v, w'))\<close>

text \<open>An awaited call on a collaborator: logged, the clock moves by the time it took.\<close>

definition await :: \<open>'p call \<Rightarrow> ('x, 'a) remote \<Rightarrow> ('x, 'p, 'a) io\<close> where
  \<open>await c f w =
     (case f (clock w) (ext w) of
        (r, x', dt) \<Rightarrow> (r, \<lparr>clock = clock w + dt, ext = x', calls = calls w @ [c]\<rparr>))\<close>

text \<open>\<^verbatim>\<open>await sleep(ms)\<close>: the timer fires after \<open>ms\<close> milliseconds or later; the outside
  world moves on meanwhile.\<close>

definition sleep :: \<open>('x, 'p) collaborators \<Rightarrow> nat \<Rightarrow> ('x, 'p) world \<Rightarrow> ('x, 'p) world\<close> where
  \<open>sleep sb ms w =
     (case timer_late sb ms (clock w) (ext w) of
        (x', late) \<Rightarrow> w\<lparr>clock := clock w + ms + late, ext := x'\<rparr>)\<close>

definition isPending :: \<open>('x, 'p) collaborators \<Rightarrow> 'p \<Rightarrow> ('x, 'p) world \<Rightarrow> bool\<close> where
  \<open>isPending sb proc w =
     (proc_status sb proc (clock w) (ext w) = ''running'' \<or>
      proc_status sb proc (clock w) (ext w) = ''starting'')\<close>

section \<open>The sync module\<close>

definition truncateOutput :: \<open>string \<Rightarrow> string\<close> where
  \<open>truncateOutput v =
     (if length v \<le> MAX_LOG_CHARS then v
      else take MAX_LOG_CHARS v @ ''\<newline>...[truncated]'')\<close>

text \<open>\<^verbatim>\<open>formatCommandResult\<close>: the object literal, keys in source order.\<close>

definition formatCommandResult :: \<open>'a CommandResult_scheme \<Rightarrow> (string \<times> json) list\<close> where
  \<open>formatCommandResult r =
     [(''command'', JStr (command r)),
      (''status'', JStr (status r)),
      (''exitCode'', (case exitCode r of None \<Rightarrow> JNull | Some c \<Rightarrow> JNum c)),
      (''didComplete'', JBool (didComplete r)),
      (''durationMs'', JNum (int (durationMs r))),
      (''stdout'', JStr (truncateOutput (stdout r))),
      (''stderr'', JStr (truncateOutput (stderr r)))]\<close>

text \<open>The result of \<^verbatim>\<open>collectFilesystemContext\<close>: \<^verbatim>\<open>{ result?, error? }\<close>.\<close>

record FsContext =
  fs_result :: \<open>CommandResult option\<close>
  fs_error :: \<open>string option\<close>

text \<open>A key whose value is \<^verbatim>\<open>undefined\<close> is left out by \<^verbatim>\<open>JSON.stringify\<close>.\<close>

definition configCheckDetailsObject :: \<open>ConfigCheckResult list \<Rightarrow> FsContext \<Rightarrow> json\<close> where
  \<open>configCheckDetailsObject checks fsContext =
     JObj ([(''triedPaths'', JArr (map (\<lambda>check. JStr (path check)) checks)),
            (''checks'', JArr (map (\<lambda>check.
               JObj ([(''path'', JStr (path check)), (''exists'', JBool (exists check))] @
                     formatCommandResult check)) checks))] @
           (case fs_result fsContext of
              None \<Rightarrow> [] | Some r \<Rightarrow> [(''fsContext'', JObj (formatCommandResult r))]) @
           (case fs_error fsContext of
              None \<Rightarrow> [] | Some e \<Rightarrow> [(''fsContextError'', JStr e)]))\<close>

definition buildConfigCheckDetails ::
  \<open>('x, 'p) collaborators \<Rightarrow> ConfigCheckResult list \<Rightarrow> FsContext \<Rightarrow> string\<close> where
  \<open>buildConfigCheckDetails sb checks fsContext =
     JSON_stringify sb (configCheckDetailsObject checks fsContext)\<close>

definition buildRsyncCheckDetails :: \<open>('x, 'p) collaborators \<Rightarrow> CommandResult \<Rightarrow> string\<close> where
  \<open>buildRsyncCheckDetails sb r =
     JSON_stringify sb (JObj [(''check'', JObj (formatCommandResult r))])\<close>

text \<open>The polling loop of \<^verbatim>\<open>runCommandWithDetails\<close>:
  \<^verbatim>\<open>while ((proc.status === 'running' || proc.status === 'starting') && Date.now() < deadline)
    await sleep(POLL_INTERVAL_MS);\<close>\<close>

function pollUntil ::
  \<open>('x, 'p) collaborators \<Rightarrow> 'p \<Rightarrow> nat \<Rightarrow> ('x, 'p) world \<Rightarrow> ('x, 'p) world\<close> where
  \<open>pollUntil sb proc deadline w =
     (if isPending sb proc w \<and> clock w < deadline
      then pollUntil sb proc deadline (sleep sb POLL_INTERVAL_MS w)
      else w)\<close>
  by pat_completeness auto
termination
  by (relation \<open>measure (\<lambda>(sb, proc, deadline, w). deadline - clock w)\<close>)
     (auto simp: sleep_def POLL_INTERVAL_MS_def split: prod.splits)

declare pollUntil.simps [simp del]

definition runCommandWithDetails ::
  \<open>('x, 'p) collaborators \<Rightarrow> string \<Rightarrow> nat \<Rightarrow> ('x, 'p, CommandResult) io\<close> where
  \<open>runCommandWithDetails sb cmd timeoutMs w0 =
     (let startedAt = clock w0 in
      io_bind (await (StartProcess cmd) (sb_startProcess sb cmd)) (\<lambda>proc.
      io_bind (await (WaitForProcess proc timeoutMs (Some POLL_INTERVAL_MS))
                 (ext_waitForProcess sb proc timeoutMs (Some POLL_INTERVAL_MS))) (\<lambda>_.
      io_bind (\<lambda>w. (Inr (), pollUntil sb proc (startedAt + timeoutMs) w)) (\<lambda>_.
      io_bind (await (GetLogs proc) (proc_getLogs sb proc)) (\<lambda>logs w.
        (Inr \<lparr>command = cmd,
              status = proc_status sb proc (clock w) (ext w),
              exitCode = proc_exitCode sb proc (clock w) (ext w),
              stdout = (case logs_stdout logs of None \<Rightarrow> [] | Some s \<Rightarrow> s),
              stderr = (case logs_stderr logs of None \<Rightarrow> [] | Some s \<Rightarrow> s),
              durationMs = clock w - startedAt,
              didComplete = (\<not> isPending sb proc w \<and>
                             proc_exitCode sb proc (clock w) (ext w) \<noteq> None)\<rparr>, w))))) w0)\<close>

definition configCheckCommand :: \<open>string \<Rightarrow> string\<close> where
  \<open>configCheckCommand p = ''sh -lc "stat -c '%F %s %n' '' @ shellEscapeArg p @ ''"''\<close>

definition checkConfigPath ::
  \<open>('x, 'p) collaborators \<Rightarrow> string \<Rightarrow> ('x, 'p, ConfigCheckResult) io\<close> where
  \<open>checkConfigPath sb p =
     io_bind (runCommandWithDetails sb (configCheckCommand p) CONFIG_CHECK_TIMEOUT_MS) (\<lambda>result.
       io_return (CommandResult.extend result
         (ConfigCheckResult.fields p
            (didComplete result \<and> exitCode result = Some 0 \<and> str_includes (stdout result) p))))\<close>

definition fsContextCommand :: string where
  \<open>fsContextCommand =
     ''sh -lc "pwd; id; '' @
     ''echo '--- /root/.openclaw ---'; ls -la /root/.openclaw 2>&1 || true; '' @
     ''echo '--- /root/.clawdbot ---'; ls -la /root/.clawdbot 2>&1 || true"''\<close>

definition collectFilesystemContext :: \<open>('x, 'p) collaborators \<Rightarrow> ('x, 'p, FsContext) io\<close> where
  \<open>collectFilesystemContext sb =
     io_catch
       (io_bind (runCommandWithDetails sb fsContextCommand CONFIG_CHECK_TIMEOUT_MS) (\<lambda>result.
          io_return \<lparr>fs_result = Some result, fs_error = None\<rparr>))
       (\<lambda>err. io_return \<lparr>fs_result = None, fs_error = Some (errMessage err)\<rparr>)\<close>

subsection \<open>\<^verbatim>\<open>syncToR2\<close>\<close>

text \<open>
  \<^verbatim>\<open>syncToR2\<close> is one function with three \<^verbatim>\<open>try\<close> blocks in sequence. Each block is a
  definition here; a block yields \<open>Inl result\<close> where the source returns \<open>result\<close> from
  inside the block, and \<open>Inr v\<close> where control falls through to the next block.
\<close>

definition failure :: \<open>string \<Rightarrow> string option \<Rightarrow> SyncResult\<close> where
  \<open>failure e d = \<lparr>success = False, lastSync = None, error = Some e, details = d\<rparr>\<close>

text \<open>Source lines 340--372: which config file exists (new path first). \<open>Inr\<close> carries
  \<^verbatim>\<open>configDir\<close>.\<close>

definition locateConfig :: \<open>('x, 'p) collaborators \<Rightarrow> ('x, 'p, SyncResult + string) io\<close> where
  \<open>locateConfig sb =
     io_catch
       (io_bind (checkConfigPath sb OPENCLAW_CONFIG_PATH) (\<lambda>checkNew.
          if exists checkNew then io_return (Inr ''/root/.openclaw'')
          else
            io_bind (checkConfigPath sb CLAWDBOT_CONFIG_PATH) (\<lambda>checkLegacy.
              if exists checkLegacy then io_return (Inr ''/root/.clawdbot'')
              else if \<not> didComplete checkNew \<or> \<not> didComplete checkLegacy then
                io_bind (collectFilesystemContext sb) (\<lambda>fsContext.
                  io_return (Inl (failure ''Sync aborted: config check did not complete''
                    (Some (buildConfigCheckDetails sb [checkNew, checkLegacy] fsContext)))))
              else
                io_bind (collectFilesystemContext sb) (\<lambda>fsContext.
                  io_return (Inl (failure ''Sync aborted: no config file found''
                    (Some (buildConfigCheckDetails sb [checkNew, checkLegacy] fsContext))))))))
       (\<lambda>err. io_return (Inl (failure ''Failed to verify source files'' (Some (errMessage err)))))\<close>

definition rsyncCheckCommand :: string where
  \<open>rsyncCheckCommand = ''sh -lc "command -v rsync"''\<close>

text \<open>Source lines 374--402: rsync is available and healthy.\<close>

definition checkRsync :: \<open>('x, 'p) collaborators \<Rightarrow> ('x, 'p, SyncResult + unit) io\<close> where
  \<open>checkRsync sb =
     io_catch
       (io_bind (runCommandWithDetails sb rsyncCheckCommand RSYNC_CHECK_TIMEOUT_MS) (\<lambda>rsyncCheck.
          if \<not> didComplete rsyncCheck then
            io_return (Inl (failure ''Sync aborted: rsync check did not complete''
              (Some (buildRsyncCheckDetails sb rsyncCheck))))
          else if exitCode rsyncCheck \<noteq> Some 0 \<or> trim (stdout rsyncCheck) = [] then
            io_return (Inl (failure ''Sync aborted: rsync is not available''
              (Some (buildRsyncCheckDetails sb rsyncCheck))))
          else io_return (Inr ())))
       (\<lambda>err. io_return (Inl (failure ''Sync aborted: rsync check failed'' (Some (errMessage err)))))\<close>

text \<open>Source lines 405--410: the five template literals that are joined by \<^verbatim>\<open> && \<close>. The
  first four are the rsync copy stages, the fifth writes the marker.\<close>

definition configStage :: \<open>string \<Rightarrow> string \<Rightarrow> string\<close> where
  \<open>configStage configDir mnt =
     ''rsync -r --no-times --delete --exclude='*.lock' --exclude='*.log' --exclude='*.tmp' '' @
     configDir @ ''/ '' @ mnt @ ''/openclaw/''\<close>

definition workspaceStage :: \<open>string \<Rightarrow> string\<close> where
  \<open>workspaceStage mnt =
     ''if [ -d /root/clawd ]; then rsync -r --no-times --delete --exclude='skills' /root/clawd/ '' @
     mnt @ ''/workspace/; fi''\<close>

definition legacyWorkspaceStage :: \<open>string \<Rightarrow> string\<close> where
  \<open>legacyWorkspaceStage mnt =
     ''if [ -d /root/clawd ]; then rsync -r --no-times --delete --exclude='skills' /root/clawd/ '' @
     mnt @ ''/clawd/; fi''\<close>

definition skillsStage :: \<open>string \<Rightarrow> string\<close> where
  \<open>skillsStage mnt =
     ''if [ -d /root/clawd/skills ]; then rsync -r --no-times --delete /root/clawd/skills/ '' @
     mnt @ ''/skills/; fi''\<close>

definition markerStage :: \<open>string \<Rightarrow> string\<close> where
  \<open>markerStage mnt = ''date -Iseconds > '' @ mnt @ ''/.last-sync''\<close>

definition rsyncStages :: \<open>string \<Rightarrow> string \<Rightarrow> string list\<close> where
  \<open>rsyncStages configDir mnt =
     [configStage configDir mnt, workspaceStage mnt, legacyWorkspaceStage mnt, skillsStage mnt]\<close>

definition syncCmd :: \<open>string \<Rightarrow> string \<Rightarrow> string\<close> where
  \<open>syncCmd configDir mnt =
     configStage configDir mnt @ '' && '' @
     workspaceStage mnt @ '' && '' @
     legacyWorkspaceStage mnt @ '' && '' @
     skillsStage mnt @ '' && '' @
     markerStage mnt\<close>

definition markerReadCommand :: \<open>string \<Rightarrow> string\<close> where
  \<open>markerReadCommand mnt = ''cat '' @ mnt @ ''/.last-sync''\<close>

text \<open>\<^verbatim>\<open>lastSync && lastSync.match(/^\d{4}-\d{2}-\d{2}/)\<close>\<close>

definition markerAccepted :: \<open>string option \<Rightarrow> bool\<close> where
  \<open>markerAccepted lastSync' =
     (case lastSync' of None \<Rightarrow> False | Some s \<Rightarrow> s \<noteq> [] \<and> matchesDatePrefix s)\<close>

text \<open>\<^verbatim>\<open>a || b\<close> on an optional string \<open>a\<close>.\<close>

definition orElse :: \<open>string option \<Rightarrow> string \<Rightarrow> string\<close> where
  \<open>orElse a b = (case a of None \<Rightarrow> b | Some s \<Rightarrow> if s = [] then b else s)\<close>

text \<open>\<^verbatim>\<open>logs.stderr || logs.stdout || 'No timestamp file created'\<close>\<close>

definition failureDetails :: \<open>Logs \<Rightarrow> string\<close> where
  \<open>failureDetails logs =
     orElse (logs_stderr logs) (orElse (logs_stdout logs) ''No timestamp file created'')\<close>

text \<open>Source lines 413--431, the body of the last \<^verbatim>\<open>try\<close>: run the pipeline, then read
  the marker back.\<close>

definition syncPipeline :: \<open>('x, 'p) collaborators \<Rightarrow> string \<Rightarrow> ('x, 'p, SyncResult) io\<close> where
  \<open>syncPipeline sb configDir =
     io_bind (await (StartProcess (syncCmd configDir (ext_R2_MOUNT_PATH sb)))
                (sb_startProcess sb (syncCmd configDir (ext_R2_MOUNT_PATH sb)))) (\<lambda>proc.
     io_bind (await (WaitForProcess proc 30000 None)
                (ext_waitForProcess sb proc 30000 None)) (\<lambda>_.
     io_bind (await (StartProcess (markerReadCommand (ext_R2_MOUNT_PATH sb)))
                (sb_startProcess sb (markerReadCommand (ext_R2_MOUNT_PATH sb)))) (\<lambda>timestampProc.
     io_bind (await (WaitForProcess timestampProc 5000 None)
                (ext_waitForProcess sb timestampProc 5000 None)) (\<lambda>_.
     io_bind (await (GetLogs timestampProc) (proc_getLogs sb timestampProc)) (\<lambda>timestampLogs.
       if markerAccepted (map_option trim (logs_stdout timestampLogs)) then
         io_return \<lparr>success = True,
                    lastSync = map_option trim (logs_stdout timestampLogs),
                    error = None, details = None\<rparr>
       else
         io_bind (await (GetLogs proc) (proc_getLogs sb proc)) (\<lambda>logs.
           io_return (failure ''Sync failed'' (Some (failureDetails logs)))))))))\<close>

text \<open>Source lines 412--438: the last \<^verbatim>\<open>try\<close> with its \<^verbatim>\<open>catch\<close>.\<close>

definition runSync :: \<open>('x, 'p) collaborators \<Rightarrow> string \<Rightarrow> ('x, 'p, SyncResult) io\<close> where
  \<open>runSync sb configDir =
     io_catch (syncPipeline sb configDir)
       (\<lambda>err. io_return (failure ''Sync error'' (Some (errMessage err))))\<close>

text \<open>\<^verbatim>\<open>!env.R2_ACCESS_KEY_ID || !env.R2_SECRET_ACCESS_KEY || !env.CF_ACCOUNT_ID\<close>\<close>

definition notConfigured :: \<open>'a MoltbotEnv_scheme \<Rightarrow> bool\<close> where
  \<open>notConfigured env =
     (\<not> truthy (R2_ACCESS_KEY_ID env) \<or> \<not> truthy (R2_SECRET_ACCESS_KEY env) \<or>
      \<not> truthy (CF_ACCOUNT_ID env))\<close>

text \<open>What follows the config block once \<^verbatim>\<open>configDir\<close> is known.\<close>

definition afterConfig :: \<open>('x, 'p) collaborators \<Rightarrow> string \<Rightarrow> ('x, 'p, SyncResult) io\<close> where
  \<open>afterConfig sb configDir =
     io_bind (checkRsync sb) (\<lambda>r.
       case r of Inl res \<Rightarrow> io_return res | Inr _ \<Rightarrow> runSync sb configDir)\<close>

definition syncToR2 :: \<open>('x, 'p) collaborators \<Rightarrow> MoltbotEnv \<Rightarrow> ('x, 'p, SyncResult) io\<close> where
  \<open>syncToR2 sb env =
     (if notConfigured env then io_return (failure ''R2 storage is not configured'' None)
      else
        io_bind (await MountR2Storage (ext_mountR2Storage sb env)) (\<lambda>mounted.
          if \<not> mounted then io_return (failure ''Failed to mount R2 storage'' None)
          else
            io_bind (locateConfig sb) (\<lambda>r.
              case r of
                Inl res \<Rightarrow> io_return res
              | Inr configDir \<Rightarrow> afterConfig sb configDir)))\<close>

section \<open>Concrete sandboxes\<close>

text \<open>
  A sandbox whose processes are told apart by their command line: the handle of a process
  is its command, and a script gives each command its status, exit code and output, which
  do not change. \<^verbatim>\<open>waitForProcess\<close> uses up the whole timeout on a process that is still
  running and ten milliseconds otherwise; every other call takes a millisecond.
\<close>

record behaviour =
  b_status :: string
  b_exitCode :: \<open>int option\<close>
  b_stdout :: \<open>string option\<close>
  b_stderr :: \<open>string option\<close>

definition scripted :: \<open>(string \<Rightarrow> behaviour) \<Rightarrow> (unit, string) collaborators\<close> where
  \<open>scripted script =
     \<lparr>sb_startProcess = (\<lambda>cmd t x. (Inr cmd, x, 1)),
      proc_status = (\<lambda>p t x. b_status (script p)),
      proc_exitCode = (\<lambda>p t x. b_exitCode (script p)),
      proc_getLogs = (\<lambda>p t x.
        (Inr \<lparr>logs_stdout = b_stdout (script p), logs_stderr = b_stderr (script p)\<rparr>, x, 1)),
      ext_waitForProcess = (\<lambda>p timeoutMs pollMs t x.
        (Inr (), x,
         if b_status (script p) = ''running'' \<or> b_status (script p) = ''starting''
         then timeoutMs else 10)),
      ext_mountR2Storage = (\<lambda>env t x. (Inr True, x, 1)),
      ext_R2_MOUNT_PATH = ''/data/moltbot'',
      timer_late = (\<lambda>ms t x. (x, 0)),
      JSON_stringify = (\<lambda>j. ''{}'')\<rparr>\<close>

definition completed :: \<open>int \<Rightarrow> string \<Rightarrow> string \<Rightarrow> behaviour\<close> where
  \<open>completed code out err =
     \<lparr>b_status = ''completed'', b_exitCode = Some code, b_stdout = Some out, b_stderr = Some err\<rparr>\<close>

definition hanging :: behaviour where
  \<open>hanging = \<lparr>b_status = ''running'', b_exitCode = None, b_stdout = Some [], b_stderr = Some []\<rparr>\<close>

definition env_configured :: MoltbotEnv where
  \<open>env_configured =
     \<lparr>R2_ACCESS_KEY_ID = Some ''key'', R2_SECRET_ACCESS_KEY = Some ''secret'',
      R2_BUCKET_NAME = None, CF_ACCOUNT_ID = Some ''account''\<rparr>\<close>

definition world0 :: \<open>(unit, string) world\<close> where
  \<open>world0 = \<lparr>clock = 0, ext = (), calls = []\<rparr>\<close>

definition script_of :: \<open>(string \<times> behaviour) list \<Rightarrow> string \<Rightarrow> behaviour\<close> where
  \<open>script_of table cmd = (case map_of table cmd of None \<Rightarrow> hanging | Some b \<Rightarrow> b)\<close>

text \<open>Only the legacy config file exists, rsync is installed, the marker file holds a date
  from an earlier run, and the sync pipeline itself never finishes.\<close>

definition legacy_script :: \<open>string \<Rightarrow> behaviour\<close> where
  \<open>legacy_script = script_of
     [(configCheckCommand OPENCLAW_CONFIG_PATH,
         completed 1 [] ''stat: cannot stat '/root/.openclaw/openclaw.json': No such file or directory''),
      (configCheckCommand CLAWDBOT_CONFIG_PATH,
         completed 0 ''regular file 512 /root/.clawdbot/clawdbot.json'' []),
      (rsyncCheckCommand, completed 0 ''/usr/bin/rsync'' []),
      (markerReadCommand ''/data/moltbot'', completed 0 ''2024-06-01T10:00:00+00:00'' [])]\<close>

text \<open>The new config file exists; \<^verbatim>\<open>command -v rsync\<close> exits with 0 and prints nothing.\<close>

definition no_rsync_script :: \<open>string \<Rightarrow> behaviour\<close> where
  \<open>no_rsync_script = script_of
     [(configCheckCommand OPENCLAW_CONFIG_PATH,
         completed 0 ''regular file 512 /root/.openclaw/openclaw.json'' []),
      (rsyncCheckCommand, completed 0 [] [])]\<close>

text \<open>The shell wrapper of the config check exits with 0 and prints nothing.\<close>

definition silent_stat_script :: \<open>string \<Rightarrow> behaviour\<close> where
  \<open>silent_stat_script = script_of [(configCheckCommand OPENCLAW_CONFIG_PATH, completed 0 [] [])]\<close>

text \<open>\<^verbatim>\<open>mountR2Storage\<close> rejects.\<close>

definition mount_throws :: \<open>(unit, string) collaborators\<close> where
  \<open>mount_throws =
     (scripted legacy_script)
       \<lparr>ext_mountR2Storage := (\<lambda>env t x. (Inl (Error ''mount failed''), x, 1))\<rparr>\<close>

text \<open>\<^verbatim>\<open>startProcess\<close> rejects for the sync pipeline and for nothing else.\<close>

definition pipeline_throws :: \<open>(unit, string) collaborators\<close> where
  \<open>pipeline_throws =
     (scripted legacy_script)
       \<lparr>sb_startProcess := (\<lambda>cmd t x.
          if prefix ''rsync'' cmd then (Inl (Error ''sandbox unreachable''), x, 1)
          else (Inr cmd, x, 1))\<rparr>\<close>

text \<open>Every process completes with exit code 0 and 2500 characters on stdout.\<close>

definition noisy_script :: \<open>string \<Rightarrow> behaviour\<close> where
  \<open>noisy_script cmd = completed 0 (replicate 2500 (CHR ''x'')) []\<close>

text \<open>A sandbox whose script also depends on the time: the status, the exit code and the
  output of a process are those the script gives at the moment they are read.\<close>

definition timed :: \<open>(string \<Rightarrow> nat \<Rightarrow> behaviour) \<Rightarrow> (unit, string) collaborators\<close> where
  \<open>timed script =
     \<lparr>sb_startProcess = (\<lambda>cmd t x. (Inr cmd, x, 1)),
      proc_status = (\<lambda>p t x. b_status (script p t)),
      proc_exitCode = (\<lambda>p t x. b_exitCode (script p t)),
      proc_getLogs = (\<lambda>p t x.
        (Inr \<lparr>logs_stdout = b_stdout (script p t), logs_stderr = b_stderr (script p t)\<rparr>, x, 1)),
      ext_waitForProcess = (\<lambda>p timeoutMs pollMs t x.
        (Inr (), x,
         if b_status (script p t) = ''running'' \<or> b_status (script p t) = ''starting''
         then timeoutMs else 10)),
      ext_mountR2Storage = (\<lambda>env t x. (Inr True, x, 1)),
      ext_R2_MOUNT_PATH = ''/data/moltbot'',
      timer_late = (\<lambda>ms t x. (x, 0)),
      JSON_stringify = (\<lambda>j. ''{}'')\<rparr>\<close>

text \<open>\<^verbatim>\<open>command -v rsync\<close> is still running, without an exit code, up to time 5014
  and has completed with exit code 0 from time 5015 on; the new config file exists, the
  pipeline completes and the marker holds a date.\<close>

definition late_rsync_script :: \<open>string \<Rightarrow> nat \<Rightarrow> behaviour\<close> where
  \<open>late_rsync_script cmd t =
     (if cmd = rsyncCheckCommand then
        (if t < 5015
         then \<lparr>b_status = ''running'', b_exitCode = None,
               b_stdout = Some ''/usr/bin/rsync'', b_stderr = Some []\<rparr>
         else completed 0 ''/usr/bin/rsync'' [])
      else script_of
        [(configCheckCommand OPENCLAW_CONFIG_PATH,
            completed 0 ''regular file 512 /root/.openclaw/openclaw.json'' []),
         (syncCmd ''/root/.openclaw'' ''/data/moltbot'', completed 0 [] []),
         (markerReadCommand ''/data/moltbot'', completed 0 ''2024-06-01T10:00:00+00:00'' [])] cmd)\<close>

text \<open>The pipeline completes and the marker file holds \<^verbatim>\<open>not-a-date\<close>.\<close>

definition bad_marker_script :: \<open>string \<Rightarrow> behaviour\<close> where
  \<open>bad_marker_script = script_of
     [(syncCmd ''/root/.openclaw'' ''/data/moltbot'', completed 0 [] []),
      (markerReadCommand ''/data/moltbot'', completed 0 ''not-a-date'' [])]\<close>

section \<open>Reading a command line\<close>

text \<open>
  To say which options an rsync call of the pipeline is given, a stage of the command is
  cut at its spaces, and the options are the words after the word \<^verbatim>\<open>rsync\<close> that begin
  with a dash. (No word of the pipeline has a space inside quotes.)
\<close>

fun splitSpaces :: \<open>string \<Rightarrow> string list\<close> where
  \<open>splitSpaces [] = [[]]\<close>
| \<open>splitSpaces (c # cs) =
     (if c = CHR '' '' then [] # splitSpaces cs
      else (case splitSpaces cs of [] \<Rightarrow> [[c]] | w # ws \<Rightarrow> (c # w) # ws))\<close>

definition rsyncOptions :: \<open>string \<Rightarrow> string list\<close> where
  \<open>rsyncOptions stage =
     filter (prefix ''-'') (dropWhile (\<lambda>w. w \<noteq> ''rsync'') (splitSpaces stage))\<close>

text \<open>The word \<^verbatim>\<open>--exclude='pat'\<close>.\<close>

definition excludeOption :: \<open>string \<Rightarrow> string\<close> where
  \<open>excludeOption pat = ''--exclude='' @ [CHR 0x27] @ pat @ [CHR 0x27]\<close>

section \<open>Auxiliary facts\<close>


subsection \<open>Strings\<close>

lemma str_includes_sublist: \<open>str_includes s t = sublist t s\<close>
  by (induction s) (auto simp: sublist_Cons_right)

lemma str_includes_iff: \<open>str_includes s t \<longleftrightarrow> (\<exists>a b. s = a @ t @ b)\<close>
  by (simp add: str_includes_sublist sublist_def)

text \<open>The regular expression, as modelled, is the shape the specification describes.\<close>

lemma matchesDatePrefix_shape: \<open>matchesDatePrefix s \<longleftrightarrow> date_prefix_shape s\<close>
proof
  assume \<open>matchesDatePrefix s\<close>
  then obtain y1 y2 y3 y4 s1 m1 m2 s2 d1 d2 rest where
    s: \<open>s = y1 # y2 # y3 # y4 # s1 # m1 # m2 # s2 # d1 # d2 # rest\<close>
    by (cases s rule: matchesDatePrefix.cases) auto
  with \<open>matchesDatePrefix s\<close> show \<open>date_prefix_shape s\<close>
    unfolding date_prefix_shape_def
    by (intro exI[of _ \<open>[y1, y2, y3, y4]\<close>] exI[of _ \<open>[m1, m2]\<close>] exI[of _ \<open>[d1, d2]\<close>] exI[of _ rest])
       simp
next
  assume \<open>date_prefix_shape s\<close>
  then obtain y m d rest where s: \<open>s = y @ ''-'' @ m @ ''-'' @ d @ rest\<close>
    and l: \<open>length y = 4\<close> \<open>length m = 2\<close> \<open>length d = 2\<close>
    and dg: \<open>\<forall>c \<in> set (y @ m @ d). isDigit c\<close>
    unfolding date_prefix_shape_def by blast
  from l obtain y1 y2 y3 y4 where y: \<open>y = [y1, y2, y3, y4]\<close>
    by (auto simp: length_Suc_conv numeral_eq_Suc)
  from l obtain m1 m2 where m: \<open>m = [m1, m2]\<close>
    by (auto simp: length_Suc_conv numeral_eq_Suc)
  from l obtain d1 d2 where d: \<open>d = [d1, d2]\<close>
    by (auto simp: length_Suc_conv numeral_eq_Suc)
  from dg show \<open>matchesDatePrefix s\<close>
    by (simp add: s y m d)
qed

lemma markerAccepted_Some: \<open>markerAccepted (Some s) \<longleftrightarrow> s \<noteq> [] \<and> date_prefix_shape s\<close>
  by (simp add: markerAccepted_def matchesDatePrefix_shape)

subsection \<open>Exceptions and the \<^verbatim>\<open>try\<close> blocks\<close>

lemma io_catch_returns:
  assumes \<open>\<And>e w1. \<exists>v w2. h e w1 = (Inr v, w2)\<close>
  shows \<open>\<exists>v w'. io_catch m h w = (Inr v, w')\<close>
proof (cases \<open>m w\<close>)
  case (Pair r w1)
  then show ?thesis using assms[of _ w1]
    by (cases r) (auto simp: io_catch_def)
qed

lemma collectFilesystemContext_returns:
  \<open>\<exists>fs w'. collectFilesystemContext sb w = (Inr fs, w')\<close>
  unfolding collectFilesystemContext_def by (rule io_catch_returns) (simp add: io_return_def)

lemma locateConfig_returns: \<open>\<exists>r w'. locateConfig sb w = (Inr r, w')\<close>
  unfolding locateConfig_def by (rule io_catch_returns) (simp add: io_return_def)

lemma checkRsync_returns: \<open>\<exists>r w'. checkRsync sb w = (Inr r, w')\<close>
  unfolding checkRsync_def by (rule io_catch_returns) (simp add: io_return_def)

lemma runSync_returns: \<open>\<exists>r w'. runSync sb d w = (Inr r, w')\<close>
  unfolding runSync_def by (rule io_catch_returns) (simp add: io_return_def)

lemma afterConfig_returns: \<open>\<exists>r w'. afterConfig sb d w = (Inr r, w')\<close>
proof -
  obtain c w1 where c: \<open>checkRsync sb w = (Inr c, w1)\<close>
    using checkRsync_returns by blast
  show ?thesis
    using c runSync_returns[of sb d w1]
    by (cases c) (auto simp: afterConfig_def io_bind_def io_return_def)
qed

lemma runSync_catches:
  \<open>syncPipeline sb d w = (Inl e, w') \<Longrightarrow>
     runSync sb d w = (Inr (failure ''Sync error'' (Some (errMessage e))), w')\<close>
  by (simp add: runSync_def io_catch_def io_return_def)

subsection \<open>The stages of \<^verbatim>\<open>syncToR2\<close>\<close>

lemma syncToR2_mounted:
  assumes \<open>\<not> notConfigured env\<close>
    and \<open>await MountR2Storage (ext_mountR2Storage sb env) w = (Inr True, w0)\<close>
  shows \<open>syncToR2 sb env w =
           io_bind (locateConfig sb)
             (\<lambda>r. case r of Inl res \<Rightarrow> io_return res | Inr configDir \<Rightarrow> afterConfig sb configDir) w0\<close>
  using assms by (simp add: syncToR2_def io_bind_def)

lemma syncToR2_located:
  assumes \<open>\<not> notConfigured env\<close>
    and \<open>await MountR2Storage (ext_mountR2Storage sb env) w = (Inr True, w0)\<close>
    and \<open>locateConfig sb w0 = (Inr (Inr configDir), w1)\<close>
  shows \<open>syncToR2 sb env w = afterConfig sb configDir w1\<close>
  using syncToR2_mounted[OF assms(1,2)] assms(3) by (simp add: io_bind_def)

lemma checkRsync_cases:
  assumes \<open>runCommandWithDetails sb rsyncCheckCommand RSYNC_CHECK_TIMEOUT_MS w = (Inr rc, w')\<close>
  shows \<open>checkRsync sb w =
     (if \<not> didComplete rc then
        Inr (Inl (failure ''Sync aborted: rsync check did not complete''
                    (Some (buildRsyncCheckDetails sb rc))))
      else if exitCode rc \<noteq> Some 0 \<or> trim (stdout rc) = [] then
        Inr (Inl (failure ''Sync aborted: rsync is not available''
                    (Some (buildRsyncCheckDetails sb rc))))
      else Inr (Inr ()), w')\<close>
  using assms by (simp add: checkRsync_def io_catch_def io_bind_def io_return_def)

lemma syncPipeline_after_marker_read:
  assumes \<open>await (StartProcess (syncCmd d (ext_R2_MOUNT_PATH sb)))
             (sb_startProcess sb (syncCmd d (ext_R2_MOUNT_PATH sb))) w = (Inr proc, w1)\<close>
    and \<open>await (WaitForProcess proc 30000 None) (ext_waitForProcess sb proc 30000 None) w1 =
           (Inr (), w2)\<close>
    and \<open>await (StartProcess (markerReadCommand (ext_R2_MOUNT_PATH sb)))
             (sb_startProcess sb (markerReadCommand (ext_R2_MOUNT_PATH sb))) w2 = (Inr tproc, w3)\<close>
    and \<open>await (WaitForProcess tproc 5000 None) (ext_waitForProcess sb tproc 5000 None) w3 =
           (Inr (), w4)\<close>
    and \<open>await (GetLogs tproc) (proc_getLogs sb tproc) w4 = (Inr tlogs, w5)\<close>
  shows \<open>syncPipeline sb d w =
     (if markerAccepted (map_option trim (logs_stdout tlogs)) then
        (Inr \<lparr>success = True, lastSync = map_option trim (logs_stdout tlogs),
              error = None, details = None\<rparr>, w5)
      else
        io_bind (await (GetLogs proc) (proc_getLogs sb proc))
          (\<lambda>logs. io_return (failure ''Sync failed'' (Some (failureDetails logs)))) w5)\<close>
  using assms by (simp add: syncPipeline_def io_bind_def io_return_def)

lemma runSync_after_marker_read:
  assumes \<open>await (StartProcess (syncCmd d (ext_R2_MOUNT_PATH sb)))
             (sb_startProcess sb (syncCmd d (ext_R2_MOUNT_PATH sb))) w = (Inr proc, w1)\<close>
    and \<open>await (WaitForProcess proc 30000 None) (ext_waitForProcess sb proc 30000 None) w1 =
           (Inr (), w2)\<close>
    and \<open>await (StartProcess (markerReadCommand (ext_R2_MOUNT_PATH sb)))
             (sb_startProcess sb (markerReadCommand (ext_R2_MOUNT_PATH sb))) w2 = (Inr tproc, w3)\<close>
    and \<open>await (WaitForProcess tproc 5000 None) (ext_waitForProcess sb tproc 5000 None) w3 =
           (Inr (), w4)\<close>
    and \<open>await (GetLogs tproc) (proc_getLogs sb tproc) w4 = (Inr tlogs, w5)\<close>
  shows \<open>\<exists>r w'. runSync sb d w = (Inr r, w') \<and>
           (success r \<longleftrightarrow> markerAccepted (map_option trim (logs_stdout tlogs))) \<and>
           (success r \<longrightarrow> lastSync r = map_option trim (logs_stdout tlogs))\<close>
proof (cases \<open>markerAccepted (map_option trim (logs_stdout tlogs))\<close>)
  case True
  then show ?thesis
    using syncPipeline_after_marker_read[OF assms]
    by (simp add: runSync_def io_catch_def)
next
  case False
  obtain r w6 where g: \<open>await (GetLogs proc) (proc_getLogs sb proc) w5 = (r, w6)\<close>
    by (cases \<open>await (GetLogs proc) (proc_getLogs sb proc) w5\<close>)
  show ?thesis
    using False g syncPipeline_after_marker_read[OF assms]
    by (cases r) (simp_all add: runSync_def io_catch_def io_bind_def io_return_def failure_def)
qed

lemma runSync_ignores_proc_reads:
  \<open>runSync (sb\<lparr>proc_status := f, proc_exitCode := g\<rparr>) d = runSync sb d\<close>
  by (simp add: runSync_def syncPipeline_def cong: if_cong)

lemma syncPipeline_success:
  \<open>syncPipeline sb d w = (Inr r, w') \<Longrightarrow> success r \<Longrightarrow> markerAccepted (lastSync r)\<close>
  by (auto simp: syncPipeline_def io_bind_def io_return_def failure_def
      split: prod.splits sum.splits if_splits)

lemma runSync_success:
  assumes \<open>runSync sb d w = (Inr r, w')\<close> and \<open>success r\<close>
  shows \<open>markerAccepted (lastSync r)\<close>
proof (cases \<open>syncPipeline sb d w\<close>)
  case (Pair res w1)
  show ?thesis
  proof (cases res)
    case (Inl e)
    with Pair assms show ?thesis
      by (auto simp: runSync_def io_catch_def io_return_def failure_def)
  next
    case (Inr r')
    with Pair assms(1) have \<open>syncPipeline sb d w = (Inr r, w')\<close>
      by (auto simp: runSync_def io_catch_def)
    then show ?thesis using assms(2) by (rule syncPipeline_success)
  qed
qed

subsection \<open>The polling loop\<close>

text \<open>The loop ends with the process no longer pending or with the deadline reached, and
  the clock has not gone back.\<close>

lemma pollUntil_stops:
  \<open>\<not> isPending sb proc (pollUntil sb proc deadline w) \<or>
     deadline \<le> clock (pollUntil sb proc deadline w)\<close>
proof (induction sb proc deadline w rule: pollUntil.induct)
  case (1 sb proc deadline w)
  show ?case
  proof (cases \<open>isPending sb proc w \<and> clock w < deadline\<close>)
    case True
    then show ?thesis using 1 by (subst (1 2) pollUntil.simps) simp
  next
    case False
    then show ?thesis by (subst (1 2) pollUntil.simps) auto
  qed
qed

lemma pollUntil_clock: \<open>clock w \<le> clock (pollUntil sb proc deadline w)\<close>
proof (induction sb proc deadline w rule: pollUntil.induct)
  case (1 sb proc deadline w)
  show ?case
  proof (cases \<open>isPending sb proc w \<and> clock w < deadline\<close>)
    case True
    have \<open>clock w \<le> clock (sleep sb POLL_INTERVAL_MS w)\<close>
      by (simp add: sleep_def split: prod.splits)
    with True 1 show ?thesis by (subst pollUntil.simps) auto
  next
    case False
    then show ?thesis by (subst pollUntil.simps) auto
  qed
qed

subsection \<open>Runs on the concrete sandboxes\<close>

lemma pollUntil_done:
  \<open>\<not> isPending sb proc w \<or> deadline \<le> clock w \<Longrightarrow> pollUntil sb proc deadline w = w\<close>
  by (subst pollUntil.simps) auto

lemma scripted_run:
  \<open>runCommandWithDetails (scripted script) cmd timeoutMs w =
     (Inr \<lparr>command = cmd,
           status = b_status (script cmd),
           exitCode = b_exitCode (script cmd),
           stdout = (case b_stdout (script cmd) of None \<Rightarrow> [] | Some s \<Rightarrow> s),
           stderr = (case b_stderr (script cmd) of None \<Rightarrow> [] | Some s \<Rightarrow> s),
           durationMs =
             (if b_status (script cmd) = ''running'' \<or> b_status (script cmd) = ''starting''
              then timeoutMs else 10) + 2,
           didComplete = (b_status (script cmd) \<noteq> ''running'' \<and>
                          b_status (script cmd) \<noteq> ''starting'' \<and>
                          b_exitCode (script cmd) \<noteq> None)\<rparr>,
      \<lparr>clock = clock w +
         ((if b_status (script cmd) = ''running'' \<or> b_status (script cmd) = ''starting''
           then timeoutMs else 10) + 2),
       ext = (),
       calls = calls w @ [StartProcess cmd, WaitForProcess cmd timeoutMs (Some POLL_INTERVAL_MS),
                          GetLogs cmd]\<rparr>)\<close>
  by (simp add: runCommandWithDetails_def io_bind_def await_def scripted_def isPending_def
      pollUntil_done Let_def)

lemma scripted_mount:
  \<open>await MountR2Storage (ext_mountR2Storage (scripted script) env) w =
     (Inr True, \<lparr>clock = clock w + 1, ext = (), calls = calls w @ [MountR2Storage]\<rparr>)\<close>
  by (simp add: await_def scripted_def)

lemma env_configured_ok: \<open>\<not> notConfigured env_configured\<close>
  by (simp add: notConfigured_def env_configured_def truthy_def)

lemmas scripted_check =
  checkConfigPath_def io_bind_def io_return_def scripted_run
  CommandResult.extend_def ConfigCheckResult.fields_def

lemmas scripted_await = await_def scripted_def

lemmas literal_commands =
  configCheckCommand_def shellEscapeArg_def OPENCLAW_CONFIG_PATH_def CLAWDBOT_CONFIG_PATH_def
  rsyncCheckCommand_def markerReadCommand_def syncCmd_def configStage_def workspaceStage_def
  legacyWorkspaceStage_def skillsStage_def markerStage_def

lemma legacy_locate:
  \<open>\<exists>w'. locateConfig (scripted legacy_script) w = (Inr (Inr ''/root/.clawdbot''), w')\<close>
  by (simp add: locateConfig_def io_catch_def scripted_check legacy_script_def script_of_def
      completed_def literal_commands)

lemma legacy_checkRsync:
  \<open>\<exists>w'. checkRsync (scripted legacy_script) w = (Inr (Inr ()), w')\<close>
  by (simp add: checkRsync_def io_catch_def io_bind_def io_return_def scripted_run
      legacy_script_def script_of_def completed_def literal_commands trim_def isWhiteSpace_def)

lemma legacy_runSync:
  \<open>\<exists>w'. runSync (scripted legacy_script) ''/root/.clawdbot'' w =
     (Inr \<lparr>success = True, lastSync = Some ''2024-06-01T10:00:00+00:00'',
           error = None, details = None\<rparr>, w')\<close>
  by (simp add: runSync_def syncPipeline_def io_catch_def io_bind_def io_return_def
      scripted_await legacy_script_def script_of_def completed_def literal_commands
      markerAccepted_def trim_def isWhiteSpace_def isDigit_def)

subsection \<open>Logs and command lines\<close>

lemma runCommandWithDetails_logs:
  assumes \<open>runCommandWithDetails sb cmd t w = (Inr res, w')\<close>
  shows \<open>\<exists>proc tm x logs x' dt.
           proc_getLogs sb proc tm x = (Inr logs, x', dt) \<and>
           stdout res = (case logs_stdout logs of None \<Rightarrow> [] | Some s \<Rightarrow> s) \<and>
           stderr res = (case logs_stderr logs of None \<Rightarrow> [] | Some s \<Rightarrow> s)\<close>
  using assms
  by (fastforce simp: runCommandWithDetails_def io_bind_def await_def Let_def
      split: prod.splits sum.splits)

lemma splitSpaces_nonempty: \<open>splitSpaces s \<noteq> []\<close>
  by (induction s) (auto split: list.splits)

lemma splitSpaces_word_append:
  \<open>CHR '' '' \<notin> set a \<Longrightarrow>
     splitSpaces (a @ b) = (a @ hd (splitSpaces b)) # tl (splitSpaces b)\<close>
  using splitSpaces_nonempty[of b]
  by (induction a) (auto split: list.splits)

lemma no_dash_append: \<open>\<not> prefix ''-'' a \<Longrightarrow> \<not> prefix ''-'' (a @ CHR ''/'' # b)\<close>
  by (cases a) auto

subsection \<open>The completion flag and a late check\<close>

lemma runCommandWithDetails_didComplete:
  assumes \<open>runCommandWithDetails sb cmd t w = (Inr rc, w')\<close>
  shows \<open>\<exists>proc. status rc = proc_status sb proc (clock w') (ext w') \<and>
           exitCode rc = proc_exitCode sb proc (clock w') (ext w') \<and>
           (didComplete rc \<longleftrightarrow>
              status rc \<noteq> ''running'' \<and> status rc \<noteq> ''starting'' \<and> exitCode rc \<noteq> None)\<close>
  using assms
  by (fastforce simp: runCommandWithDetails_def io_bind_def Let_def isPending_def
      split: prod.splits sum.splits)

lemmas timed_eval =
  runCommandWithDetails_def io_bind_def io_return_def io_catch_def await_def timed_def
  isPending_def pollUntil_done Let_def late_rsync_script_def script_of_def completed_def
  hanging_def literal_commands CONFIG_CHECK_TIMEOUT_MS_def RSYNC_CHECK_TIMEOUT_MS_def
  POLL_INTERVAL_MS_def

lemma late_locate:
  \<open>locateConfig (timed late_rsync_script) \<lparr>clock = 1, ext = (), calls = cs\<rparr> =
     (Inr (Inr ''/root/.openclaw''),
      \<lparr>clock = 13, ext = (),
       calls = cs @ [StartProcess (configCheckCommand OPENCLAW_CONFIG_PATH),
                     WaitForProcess (configCheckCommand OPENCLAW_CONFIG_PATH) 5000 (Some 200),
                     GetLogs (configCheckCommand OPENCLAW_CONFIG_PATH)]\<rparr>)\<close>
  by (simp add: locateConfig_def checkConfigPath_def timed_eval
      CommandResult.extend_def ConfigCheckResult.fields_def)

lemma late_check:
  \<open>runCommandWithDetails (timed late_rsync_script) rsyncCheckCommand RSYNC_CHECK_TIMEOUT_MS
       \<lparr>clock = 13, ext = (), calls = cs\<rparr> =
     (Inr \<lparr>command = rsyncCheckCommand, status = ''completed'', exitCode = Some 0,
           stdout = ''/usr/bin/rsync'', stderr = [], durationMs = 5002, didComplete = True\<rparr>,
      \<lparr>clock = 5015, ext = (),
       calls = cs @ [StartProcess rsyncCheckCommand,
                     WaitForProcess rsyncCheckCommand 5000 (Some 200),
                     GetLogs rsyncCheckCommand]\<rparr>)\<close>
  by (simp add: timed_eval)

lemma late_runSync:
  \<open>fst (runSync (timed late_rsync_script) ''/root/.openclaw'' w) =
     Inr \<lparr>success = True, lastSync = Some ''2024-06-01T10:00:00+00:00'',
          error = None, details = None\<rparr>\<close>
  by (simp add: runSync_def syncPipeline_def timed_eval markerAccepted_def trim_def
      isWhiteSpace_def isDigit_def)

section \<open>The claims\<close>


text \<open>
  \<^bold>\<open>C10.\<close> When one of the three storage credentials (R2 access key, R2 secret key,
  account identifier) is absent, \<^verbatim>\<open>syncToR2\<close> returns the failure
  \<^verbatim>\<open>R2 storage is not configured\<close> at once: whatever the collaborators are, the world it
  leaves is the world it was given, so the clock has not moved, the outside state is
  untouched and the log of calls has no new entry.
\<close>

theorem not_configured_no_remote_call:
  assumes \<open>R2_ACCESS_KEY_ID env = None \<or> R2_SECRET_ACCESS_KEY env = None \<or>
           CF_ACCOUNT_ID env = None\<close>
  shows \<open>syncToR2 sb env w = (Inr (failure ''R2 storage is not configured'' None), w)\<close>
  using assms by (auto simp: syncToR2_def notConfigured_def truthy_def io_return_def)

text \<open>Witness for C10: the secret key is missing; the sandbox is one whose mount would
  throw if it were called.\<close>

theorem not_configured_no_remote_call_witness:
  \<open>syncToR2 mount_throws (env_configured\<lparr>R2_SECRET_ACCESS_KEY := None\<rparr>) world0 =
     (Inr (failure ''R2 storage is not configured'' None), world0) \<and>
   calls world0 = ([] :: string call list)\<close>
  using not_configured_no_remote_call[of \<open>env_configured\<lparr>R2_SECRET_ACCESS_KEY := None\<rparr>\<close>
      mount_throws world0]
  by (simp add: world0_def)

text \<open>
  \<^bold>\<open>C1.\<close> In a run of \<^verbatim>\<open>syncToR2\<close> that gets past the mount and in which both config
  probes return and neither reports \<open>exists\<close>: if either probe has \<open>didComplete = false\<close>,
  the result is the failure \<^verbatim>\<open>Sync aborted: config check did not complete\<close>, whatever
  the other probe says; the details are built from the two probes and the filesystem
  snapshot.
\<close>

theorem config_check_incomplete:
  assumes \<open>\<not> notConfigured env\<close>
    and \<open>await MountR2Storage (ext_mountR2Storage sb env) w = (Inr True, w0)\<close>
    and \<open>checkConfigPath sb OPENCLAW_CONFIG_PATH w0 = (Inr checkNew, w1)\<close>
    and \<open>checkConfigPath sb CLAWDBOT_CONFIG_PATH w1 = (Inr checkLegacy, w2)\<close>
    and \<open>\<not> exists checkNew\<close> and \<open>\<not> exists checkLegacy\<close>
    and \<open>\<not> didComplete checkNew \<or> \<not> didComplete checkLegacy\<close>
  shows \<open>\<exists>fsContext w'. syncToR2 sb env w =
           (Inr (failure ''Sync aborted: config check did not complete''
                   (Some (buildConfigCheckDetails sb [checkNew, checkLegacy] fsContext))), w')\<close>
proof -
  obtain fs w3 where fs: \<open>collectFilesystemContext sb w2 = (Inr fs, w3)\<close>
    using collectFilesystemContext_returns by blast
  have \<open>locateConfig sb w0 =
          (Inr (Inl (failure ''Sync aborted: config check did not complete''
                  (Some (buildConfigCheckDetails sb [checkNew, checkLegacy] fs)))), w3)\<close>
    using assms(3-7) fs by (auto simp: locateConfig_def io_catch_def io_bind_def io_return_def)
  then have \<open>syncToR2 sb env w =
          (Inr (failure ''Sync aborted: config check did not complete''
                  (Some (buildConfigCheckDetails sb [checkNew, checkLegacy] fs))), w3)\<close>
    using syncToR2_mounted[OF assms(1,2)] by (simp add: io_bind_def io_return_def)
  then show ?thesis by blast
qed

text \<open>Witness for C1: every process of the sandbox hangs, so neither probe completes.\<close>

theorem config_check_incomplete_witness:
  \<open>\<exists>d w'. syncToR2 (scripted (\<lambda>cmd. hanging)) env_configured world0 =
     (Inr (failure ''Sync aborted: config check did not complete'' (Some d)), w')\<close>
proof -
  let ?sb = \<open>scripted (\<lambda>cmd. hanging) :: (unit, string) collaborators\<close>
  obtain w0 where
    m: \<open>await MountR2Storage (ext_mountR2Storage ?sb env_configured) world0 = (Inr True, w0)\<close>
    by (simp add: scripted_mount)
  obtain cn w1 where n: \<open>checkConfigPath ?sb OPENCLAW_CONFIG_PATH w0 = (Inr cn, w1)\<close>
    and n': \<open>\<not> exists cn\<close> \<open>\<not> didComplete cn\<close>
    by (simp add: scripted_check hanging_def)
  obtain cl w2 where l: \<open>checkConfigPath ?sb CLAWDBOT_CONFIG_PATH w1 = (Inr cl, w2)\<close>
    and l': \<open>\<not> exists cl\<close>
    by (simp add: scripted_check hanging_def)
  from config_check_incomplete[OF env_configured_ok m n l n'(1) l'] n'(2)
  show ?thesis by blast
qed

text \<open>
  \<^bold>\<open>C5.\<close> In a run of \<^verbatim>\<open>syncToR2\<close> that gets past the mount, if the probe of the new
  path returns without \<open>exists\<close> and the probe of the legacy path returns with \<open>exists\<close>,
  the config block falls through with \<^verbatim>\<open>configDir = '/root/.clawdbot'\<close> and the run goes
  on with the rsync check and the pipeline for that directory.
\<close>

theorem legacy_config_chosen:
  assumes \<open>\<not> notConfigured env\<close>
    and \<open>await MountR2Storage (ext_mountR2Storage sb env) w = (Inr True, w0)\<close>
    and \<open>checkConfigPath sb OPENCLAW_CONFIG_PATH w0 = (Inr checkNew, w1)\<close>
    and \<open>\<not> exists checkNew\<close>
    and \<open>checkConfigPath sb CLAWDBOT_CONFIG_PATH w1 = (Inr checkLegacy, w2)\<close>
    and \<open>exists checkLegacy\<close>
  shows \<open>locateConfig sb w0 = (Inr (Inr ''/root/.clawdbot''), w2) \<and>
         syncToR2 sb env w = afterConfig sb ''/root/.clawdbot'' w2\<close>
proof -
  have \<open>locateConfig sb w0 = (Inr (Inr ''/root/.clawdbot''), w2)\<close>
    using assms(3-6) by (simp add: locateConfig_def io_catch_def io_bind_def io_return_def)
  then show ?thesis
    using syncToR2_mounted[OF assms(1,2)] by (simp add: io_bind_def)
qed

text \<open>Witness for C5: \<^verbatim>\<open>stat\<close> fails on the new path and prints the legacy path.\<close>

theorem legacy_config_chosen_witness:
  \<open>\<exists>w0 w2. locateConfig (scripted legacy_script) w0 = (Inr (Inr ''/root/.clawdbot''), w2) \<and>
     syncToR2 (scripted legacy_script) env_configured world0 =
       afterConfig (scripted legacy_script) ''/root/.clawdbot'' w2\<close>
proof -
  let ?sb = \<open>scripted legacy_script\<close>
  obtain w0 where
    m: \<open>await MountR2Storage (ext_mountR2Storage ?sb env_configured) world0 = (Inr True, w0)\<close>
    by (simp add: scripted_mount)
  obtain cn w1 where n: \<open>checkConfigPath ?sb OPENCLAW_CONFIG_PATH w0 = (Inr cn, w1)\<close>
    and n': \<open>\<not> exists cn\<close>
    by (simp add: scripted_check legacy_script_def script_of_def completed_def literal_commands)
  obtain cl w2 where l: \<open>checkConfigPath ?sb CLAWDBOT_CONFIG_PATH w1 = (Inr cl, w2)\<close>
    and l': \<open>exists cl\<close>
    by (simp add: scripted_check legacy_script_def script_of_def completed_def literal_commands)
  from legacy_config_chosen[OF env_configured_ok m n n' l l']
  show ?thesis by blast
qed

text \<open>
  \<^bold>\<open>C6.\<close> Whatever the path and the collaborators, a result of \<^verbatim>\<open>checkConfigPath\<close>
  carries the probed path, and its \<open>exists\<close> is true exactly when \<open>didComplete\<close> is true,
  the exit code is 0 and the captured stdout contains the path as a contiguous run. So
  \<open>exists\<close> is true only if all three hold, and exit code 0 alone is not enough.
\<close>

theorem exists_only_if_stat_printed_path:
  assumes \<open>checkConfigPath sb p w = (Inr r, w')\<close>
  shows \<open>path r = p \<and>
         (exists r \<longleftrightarrow>
            didComplete r \<and> exitCode r = Some 0 \<and> (\<exists>a b. stdout r = a @ p @ b))\<close>
proof -
  from assms obtain res where
    r: \<open>r = CommandResult.extend res (ConfigCheckResult.fields p
          (didComplete res \<and> exitCode res = Some 0 \<and> str_includes (stdout res) p))\<close>
    by (auto simp: checkConfigPath_def io_bind_def io_return_def split: prod.splits sum.splits)
  show ?thesis
    by (simp add: r CommandResult.extend_def ConfigCheckResult.fields_def str_includes_iff)
qed

text \<open>Witness for C6: the check completes with exit code 0 and an empty stdout, and
  \<open>exists\<close> is false.\<close>

theorem exists_only_if_stat_printed_path_witness:
  \<open>\<exists>r w'. checkConfigPath (scripted silent_stat_script) OPENCLAW_CONFIG_PATH world0 = (Inr r, w') \<and>
      didComplete r \<and> exitCode r = Some 0 \<and> \<not> exists r\<close>
proof -
  obtain r w' where
    c: \<open>checkConfigPath (scripted silent_stat_script) OPENCLAW_CONFIG_PATH world0 = (Inr r, w')\<close>
    and r: \<open>didComplete r\<close> \<open>exitCode r = Some 0\<close> \<open>stdout r = []\<close>
    by (simp add: scripted_check silent_stat_script_def script_of_def completed_def)
  from exists_only_if_stat_printed_path[OF c] r
  have \<open>\<not> exists r\<close> by (simp add: OPENCLAW_CONFIG_PATH_def)
  with c r show ?thesis by blast
qed

text \<open>
  \<^bold>\<open>C7\<close> (as amended). In a run of \<^verbatim>\<open>syncToR2\<close> that reaches the rsync check, and in
  which the check command returns a result: the run goes on to the pipeline only if the
  \<open>didComplete\<close> flag of the result is true, its exit code is 0 and its stdout is
  non-empty after trimming. A false flag gives
  \<^verbatim>\<open>Sync aborted: rsync check did not complete\<close>; a true flag with another exit code or
  with an empty trimmed stdout gives \<^verbatim>\<open>Sync aborted: rsync is not available\<close>. The flag
  is true exactly when, at the moment the logs have been fetched, the status of the process
  is neither \<^verbatim>\<open>running\<close> nor \<^verbatim>\<open>starting\<close> and an exit code is present; the flag is not
  compared with the deadline.
\<close>

theorem rsync_availability:
  assumes \<open>\<not> notConfigured env\<close>
    and \<open>await MountR2Storage (ext_mountR2Storage sb env) w = (Inr True, w0)\<close>
    and \<open>locateConfig sb w0 = (Inr (Inr configDir), w1)\<close>
    and \<open>runCommandWithDetails sb rsyncCheckCommand RSYNC_CHECK_TIMEOUT_MS w1 = (Inr rc, w2)\<close>
  shows \<open>(\<not> didComplete rc \<longrightarrow>
            syncToR2 sb env w =
              (Inr (failure ''Sync aborted: rsync check did not complete''
                      (Some (buildRsyncCheckDetails sb rc))), w2)) \<and>
         (didComplete rc \<and> (exitCode rc \<noteq> Some 0 \<or> trim (stdout rc) = []) \<longrightarrow>
            syncToR2 sb env w =
              (Inr (failure ''Sync aborted: rsync is not available''
                      (Some (buildRsyncCheckDetails sb rc))), w2)) \<and>
         (didComplete rc \<and> exitCode rc = Some 0 \<and> trim (stdout rc) \<noteq> [] \<longrightarrow>
            syncToR2 sb env w = runSync sb configDir w2) \<and>
         (didComplete rc \<longleftrightarrow>
            status rc \<noteq> ''running'' \<and> status rc \<noteq> ''starting'' \<and> exitCode rc \<noteq> None) \<and>
         (\<exists>proc. status rc = proc_status sb proc (clock w2) (ext w2) \<and>
                 exitCode rc = proc_exitCode sb proc (clock w2) (ext w2))\<close>
proof -
  have a: \<open>(\<not> didComplete rc \<longrightarrow>
            syncToR2 sb env w =
              (Inr (failure ''Sync aborted: rsync check did not complete''
                      (Some (buildRsyncCheckDetails sb rc))), w2)) \<and>
         (didComplete rc \<and> (exitCode rc \<noteq> Some 0 \<or> trim (stdout rc) = []) \<longrightarrow>
            syncToR2 sb env w =
              (Inr (failure ''Sync aborted: rsync is not available''
                      (Some (buildRsyncCheckDetails sb rc))), w2)) \<and>
         (didComplete rc \<and> exitCode rc = Some 0 \<and> trim (stdout rc) \<noteq> [] \<longrightarrow>
            syncToR2 sb env w = runSync sb configDir w2)\<close>
    using syncToR2_located[OF assms(1-3)] checkRsync_cases[OF assms(4)]
    by (simp add: afterConfig_def io_bind_def io_return_def)
  from a runCommandWithDetails_didComplete[OF assms(4)] show ?thesis by blast
qed

text \<open>Counterexample to C7 as stated: the check starts at time 13 with the deadline
  5013, is still running without an exit code at the deadline, and has completed by the
  time its logs are fetched at 5015. The flag is true, the check passes, and the run ends
  in a success.\<close>

theorem late_rsync_check_accepted:
  \<open>proc_status (timed late_rsync_script) rsyncCheckCommand 5013 () = ''running'' \<and>
   proc_exitCode (timed late_rsync_script) rsyncCheckCommand 5013 () = None \<and>
   clock (snd (locateConfig (timed late_rsync_script)
                 \<lparr>clock = 1, ext = (), calls = [MountR2Storage]\<rparr>)) = 13 \<and>
   fst (runCommandWithDetails (timed late_rsync_script) rsyncCheckCommand RSYNC_CHECK_TIMEOUT_MS
          \<lparr>clock = 13, ext = (), calls = []\<rparr>) =
     Inr \<lparr>command = rsyncCheckCommand, status = ''completed'', exitCode = Some 0,
          stdout = ''/usr/bin/rsync'', stderr = [], durationMs = 5002, didComplete = True\<rparr> \<and>
   fst (syncToR2 (timed late_rsync_script) env_configured world0) =
     Inr \<lparr>success = True, lastSync = Some ''2024-06-01T10:00:00+00:00'',
          error = None, details = None\<rparr>\<close>
proof -
  have a: \<open>proc_status (timed late_rsync_script) rsyncCheckCommand 5013 () = ''running''\<close>
    \<open>proc_exitCode (timed late_rsync_script) rsyncCheckCommand 5013 () = None\<close>
    by (simp_all add: timed_def late_rsync_script_def)
  have m: \<open>await MountR2Storage (ext_mountR2Storage (timed late_rsync_script) env_configured) world0 =
          (Inr True, \<lparr>clock = 1, ext = (), calls = [MountR2Storage]\<rparr>)\<close>
    by (simp add: await_def timed_def world0_def)
  have s: \<open>syncToR2 (timed late_rsync_script) env_configured world0 =
      runSync (timed late_rsync_script) ''/root/.openclaw''
        \<lparr>clock = 5015, ext = (),
         calls = ([MountR2Storage] @ [StartProcess (configCheckCommand OPENCLAW_CONFIG_PATH),
                     WaitForProcess (configCheckCommand OPENCLAW_CONFIG_PATH) 5000 (Some 200),
                     GetLogs (configCheckCommand OPENCLAW_CONFIG_PATH)]) @
                  [StartProcess rsyncCheckCommand,
                     WaitForProcess rsyncCheckCommand 5000 (Some 200),
                     GetLogs rsyncCheckCommand]\<rparr>\<close>
    using syncToR2_located[OF env_configured_ok m late_locate] checkRsync_cases[OF late_check]
    by (simp add: afterConfig_def io_bind_def trim_def isWhiteSpace_def)
  have b: \<open>clock (snd (locateConfig (timed late_rsync_script)
                 \<lparr>clock = 1, ext = (), calls = [MountR2Storage]\<rparr>)) = 13\<close>
    by (subst late_locate) simp
  have c: \<open>fst (runCommandWithDetails (timed late_rsync_script) rsyncCheckCommand
          RSYNC_CHECK_TIMEOUT_MS \<lparr>clock = 13, ext = (), calls = []\<rparr>) =
     Inr \<lparr>command = rsyncCheckCommand, status = ''completed'', exitCode = Some 0,
          stdout = ''/usr/bin/rsync'', stderr = [], durationMs = 5002, didComplete = True\<rparr>\<close>
    by (subst late_check) simp
  have d: \<open>fst (syncToR2 (timed late_rsync_script) env_configured world0) =
     Inr \<lparr>success = True, lastSync = Some ''2024-06-01T10:00:00+00:00'',
          error = None, details = None\<rparr>\<close>
    by (simp only: s late_runSync)
  from a b c d show ?thesis by blast
qed

text \<open>Witness for C7: \<^verbatim>\<open>command -v rsync\<close> completes with exit code 0 and prints nothing.\<close>

theorem rsync_availability_witness:
  \<open>\<exists>d w'. syncToR2 (scripted no_rsync_script) env_configured world0 =
     (Inr (failure ''Sync aborted: rsync is not available'' (Some d)), w')\<close>
proof -
  let ?sb = \<open>scripted no_rsync_script\<close>
  obtain w0 where
    m: \<open>await MountR2Storage (ext_mountR2Storage ?sb env_configured) world0 = (Inr True, w0)\<close>
    by (simp add: scripted_mount)
  obtain w1 where c: \<open>locateConfig ?sb w0 = (Inr (Inr ''/root/.openclaw''), w1)\<close>
    by (simp add: locateConfig_def io_catch_def scripted_check no_rsync_script_def script_of_def
        completed_def literal_commands)
  obtain rc w2 where
    r: \<open>runCommandWithDetails ?sb rsyncCheckCommand RSYNC_CHECK_TIMEOUT_MS w1 = (Inr rc, w2)\<close>
    and r': \<open>didComplete rc\<close> \<open>exitCode rc = Some 0\<close> \<open>trim (stdout rc) = []\<close>
    by (simp add: scripted_run no_rsync_script_def script_of_def completed_def literal_commands
        trim_def)
  from rsync_availability[OF env_configured_ok m c r] r'
  show ?thesis by blast
qed


text \<open>
  \<^bold>\<open>C2.\<close> With the mount honouring its contract, \<^verbatim>\<open>syncToR2\<close> returns a
  \<^verbatim>\<open>SyncResult\<close> for every environment, every world and every behaviour of
  \<^verbatim>\<open>startProcess\<close>, \<^verbatim>\<open>waitForProcess\<close>, \<^verbatim>\<open>getLogs\<close>, \<^verbatim>\<open>proc.status\<close> and
  \<^verbatim>\<open>proc.exitCode\<close>, throwing included: no exception leaves it. An exception in the body
  of the pipeline and verification block becomes the result \<^verbatim>\<open>Sync error\<close> whose details
  are the message of the exception (\<^verbatim>\<open>Unknown error\<close> for a thrown value that is not an
  \<^verbatim>\<open>Error\<close>).
\<close>

theorem syncToR2_never_throws:
  assumes \<open>mountR2Storage_contract sb\<close>
  shows \<open>(\<exists>r w'. syncToR2 sb env w = (Inr r, w')) \<and>
         (\<forall>d w1 e w2. syncPipeline sb d w1 = (Inl e, w2) \<longrightarrow>
            runSync sb d w1 = (Inr (failure ''Sync error'' (Some (errMessage e))), w2))\<close>
proof
  show \<open>\<exists>r w'. syncToR2 sb env w = (Inr r, w')\<close>
  proof (cases \<open>notConfigured env\<close>)
    case True
    then show ?thesis by (simp add: syncToR2_def io_return_def)
  next
    case False
    from assms obtain mounted x' dt where
      \<open>ext_mountR2Storage sb env (clock w) (ext w) = (Inr mounted, x', dt)\<close>
      unfolding mountR2Storage_contract_def by blast
    then obtain w0 where
      m: \<open>await MountR2Storage (ext_mountR2Storage sb env) w = (Inr mounted, w0)\<close>
      by (simp add: await_def)
    obtain c w1 where c: \<open>locateConfig sb w0 = (Inr c, w1)\<close>
      using locateConfig_returns by blast
    show ?thesis
      using False m c afterConfig_returns[of sb _ w1]
      by (cases c) (auto simp: syncToR2_def io_bind_def io_return_def)
  qed
  show \<open>\<forall>d w1 e w2. syncPipeline sb d w1 = (Inl e, w2) \<longrightarrow>
            runSync sb d w1 = (Inr (failure ''Sync error'' (Some (errMessage e))), w2)\<close>
    by (simp add: runSync_catches)
qed

text \<open>Witness for C2: the mount resolves and \<^verbatim>\<open>startProcess\<close> rejects for the pipeline.\<close>

theorem syncToR2_never_throws_witness:
  \<open>mountR2Storage_contract pipeline_throws \<and>
   (\<exists>r w'. syncToR2 pipeline_throws env_configured world0 = (Inr r, w')) \<and>
   (\<exists>w'. runSync pipeline_throws ''/root/.clawdbot'' world0 =
      (Inr (failure ''Sync error'' (Some ''sandbox unreachable'')), w'))\<close>
proof -
  have m: \<open>mountR2Storage_contract pipeline_throws\<close>
    by (auto simp: mountR2Storage_contract_def pipeline_throws_def scripted_def)
  have p: \<open>\<exists>w'. syncPipeline pipeline_throws ''/root/.clawdbot'' world0 =
          (Inl (Error ''sandbox unreachable''), w')\<close>
    by (simp add: syncPipeline_def io_bind_def await_def pipeline_throws_def scripted_def
        literal_commands)
  from syncToR2_never_throws[OF m] p m
  show ?thesis by fastforce
qed

text \<open>
  \<^bold>\<open>C4.\<close> In a run of \<^verbatim>\<open>syncToR2\<close> that reaches the pipeline block and in which the two
  processes start, the two waits return and the logs of the marker read are fetched: the
  run returns a result, and the result is a success exactly when the stdout of the marker
  read is present, non-empty after trimming, and of the date-prefix shape after trimming;
  on success \<open>lastSync\<close> is that trimmed stdout. The block is the same function of the
  world whatever \<^verbatim>\<open>proc.status\<close> and \<^verbatim>\<open>proc.exitCode\<close> are, so the exit code and the status
  of the pipeline process play no part.
\<close>

theorem marker_alone_decides_success:
  assumes \<open>\<not> notConfigured env\<close>
    and \<open>await MountR2Storage (ext_mountR2Storage sb env) w = (Inr True, v0)\<close>
    and \<open>locateConfig sb v0 = (Inr (Inr d), v1)\<close>
    and \<open>checkRsync sb v1 = (Inr (Inr ()), w0)\<close>
    and \<open>await (StartProcess (syncCmd d (ext_R2_MOUNT_PATH sb)))
             (sb_startProcess sb (syncCmd d (ext_R2_MOUNT_PATH sb))) w0 = (Inr proc, w1)\<close>
    and \<open>await (WaitForProcess proc 30000 None) (ext_waitForProcess sb proc 30000 None) w1 =
           (Inr (), w2)\<close>
    and \<open>await (StartProcess (markerReadCommand (ext_R2_MOUNT_PATH sb)))
             (sb_startProcess sb (markerReadCommand (ext_R2_MOUNT_PATH sb))) w2 = (Inr tproc, w3)\<close>
    and \<open>await (WaitForProcess tproc 5000 None) (ext_waitForProcess sb tproc 5000 None) w3 =
           (Inr (), w4)\<close>
    and \<open>await (GetLogs tproc) (proc_getLogs sb tproc) w4 = (Inr tlogs, w5)\<close>
  shows \<open>(\<exists>r w'. syncToR2 sb env w = (Inr r, w') \<and>
            (success r \<longleftrightarrow>
               (\<exists>s. logs_stdout tlogs = Some s \<and> trim s \<noteq> [] \<and> date_prefix_shape (trim s))) \<and>
            (success r \<longrightarrow> lastSync r = map_option trim (logs_stdout tlogs))) \<and>
         syncToR2 sb env w = runSync sb d w0 \<and>
         (\<forall>f g. runSync (sb\<lparr>proc_status := f, proc_exitCode := g\<rparr>) d = runSync sb d)\<close>
proof -
  have s: \<open>syncToR2 sb env w = runSync sb d w0\<close>
    using syncToR2_located[OF assms(1-3)] assms(4)
    by (simp add: afterConfig_def io_bind_def)
  have m: \<open>markerAccepted (map_option trim (logs_stdout tlogs)) \<longleftrightarrow>
           (\<exists>s. logs_stdout tlogs = Some s \<and> trim s \<noteq> [] \<and> date_prefix_shape (trim s))\<close>
    by (cases \<open>logs_stdout tlogs\<close>) (simp_all add: markerAccepted_Some, simp add: markerAccepted_def)
  show ?thesis
    using runSync_after_marker_read[OF assms(5-9)] s m runSync_ignores_proc_reads
    by auto
qed

text \<open>Witness for C4: the pipeline process is still running when its wait gives up and
  never has an exit code; the marker file holds a date; the run is a success.\<close>

theorem marker_alone_decides_success_witness:
  \<open>b_status (legacy_script (syncCmd ''/root/.clawdbot'' ''/data/moltbot'')) = ''running'' \<and>
   b_exitCode (legacy_script (syncCmd ''/root/.clawdbot'' ''/data/moltbot'')) = None \<and>
   (\<exists>r w'. syncToR2 (scripted legacy_script) env_configured world0 = (Inr r, w') \<and>
      success r \<and> lastSync r = Some ''2024-06-01T10:00:00+00:00'')\<close>
proof -
  let ?sb = \<open>scripted legacy_script\<close>
  let ?cmd = \<open>syncCmd ''/root/.clawdbot'' ''/data/moltbot''\<close>
  let ?cat = \<open>markerReadCommand ''/data/moltbot''\<close>
  let ?logs = \<open>\<lparr>logs_stdout = Some ''2024-06-01T10:00:00+00:00'', logs_stderr = Some []\<rparr>\<close>
  have p: \<open>b_status (legacy_script ?cmd) = ''running''\<close> \<open>b_exitCode (legacy_script ?cmd) = None\<close>
    by (simp_all add: legacy_script_def script_of_def hanging_def literal_commands)
  obtain v0 where
    m: \<open>await MountR2Storage (ext_mountR2Storage ?sb env_configured) world0 = (Inr True, v0)\<close>
    by (simp add: scripted_mount)
  obtain v1 where c: \<open>locateConfig ?sb v0 = (Inr (Inr ''/root/.clawdbot''), v1)\<close>
    using legacy_locate by blast
  obtain w0 where k: \<open>checkRsync ?sb v1 = (Inr (Inr ()), w0)\<close>
    using legacy_checkRsync by blast
  obtain w1 where a1: \<open>await (StartProcess (syncCmd ''/root/.clawdbot'' (ext_R2_MOUNT_PATH ?sb)))
      (sb_startProcess ?sb (syncCmd ''/root/.clawdbot'' (ext_R2_MOUNT_PATH ?sb))) w0 = (Inr ?cmd, w1)\<close>
    by (simp add: scripted_await)
  obtain w2 where a2: \<open>await (WaitForProcess ?cmd 30000 None)
      (ext_waitForProcess ?sb ?cmd 30000 None) w1 = (Inr (), w2)\<close>
    by (simp add: scripted_await)
  obtain w3 where a3: \<open>await (StartProcess (markerReadCommand (ext_R2_MOUNT_PATH ?sb)))
      (sb_startProcess ?sb (markerReadCommand (ext_R2_MOUNT_PATH ?sb))) w2 = (Inr ?cat, w3)\<close>
    by (simp add: scripted_await)
  obtain w4 where a4: \<open>await (WaitForProcess ?cat 5000 None)
      (ext_waitForProcess ?sb ?cat 5000 None) w3 = (Inr (), w4)\<close>
    by (simp add: scripted_await)
  obtain w5 where a5: \<open>await (GetLogs ?cat) (proc_getLogs ?sb ?cat) w4 = (Inr ?logs, w5)\<close>
    by (simp add: scripted_await legacy_script_def script_of_def completed_def literal_commands)
  have t: \<open>trim ''2024-06-01T10:00:00+00:00'' = ''2024-06-01T10:00:00+00:00''\<close>
    by (simp add: trim_def isWhiteSpace_def)
  have x: \<open>\<exists>s. logs_stdout ?logs = Some s \<and> trim s \<noteq> [] \<and> date_prefix_shape (trim s)\<close>
    by (simp add: t matchesDatePrefix_shape[symmetric] isDigit_def)
  from marker_alone_decides_success[OF env_configured_ok m c k a1 a2 a3 a4 a5, THEN conjunct1]
  obtain r w' where r: \<open>syncToR2 ?sb env_configured world0 = (Inr r, w')\<close>
    and s: \<open>success r \<longleftrightarrow>
          (\<exists>s. logs_stdout ?logs = Some s \<and> trim s \<noteq> [] \<and> date_prefix_shape (trim s))\<close>
    and l: \<open>success r \<longrightarrow> lastSync r = map_option trim (logs_stdout ?logs)\<close>
    by blast
  from s x have sr: \<open>success r\<close> by blast
  with l t have \<open>lastSync r = Some ''2024-06-01T10:00:00+00:00''\<close> by simp
  with r sr p show ?thesis by blast
qed

text \<open>
  \<^bold>\<open>C8.\<close> The verification accepts the trimmed marker exactly when it has the date-prefix
  shape at its start (four digits, dash, two digits, dash, two digits). It accepts
  \<^verbatim>\<open>2024-01-01T00:00:00+00:00\<close>, rejects \<^verbatim>\<open>not-a-date\<close> and the empty string, and rejects
  a date that is not at the start. In a run of the pipeline block in which the two
  processes start, the two waits return and the marker read prints \<open>marker\<close>, the block
  returns a result that is a success exactly when the trimmed \<open>marker\<close> has the shape,
  and a success carries the trimmed \<open>marker\<close> as \<open>lastSync\<close>. Whenever the block returns
  a success, its \<open>lastSync\<close> has the shape.
\<close>

theorem marker_date_prefix_validation:
  \<open>markerAccepted (Some (trim ''2024-01-01T00:00:00+00:00'')) \<and>
   \<not> markerAccepted (Some (trim ''not-a-date'')) \<and>
   \<not> markerAccepted (Some (trim [])) \<and>
   \<not> markerAccepted (Some (trim ''on 2024-01-01'')) \<and>
   (markerAccepted (Some s) \<longleftrightarrow> date_prefix_shape s) \<and>
   (await (StartProcess (syncCmd d (ext_R2_MOUNT_PATH sb)))
      (sb_startProcess sb (syncCmd d (ext_R2_MOUNT_PATH sb))) w = (Inr proc, w1) \<and>
    await (WaitForProcess proc 30000 None) (ext_waitForProcess sb proc 30000 None) w1 =
      (Inr (), w2) \<and>
    await (StartProcess (markerReadCommand (ext_R2_MOUNT_PATH sb)))
      (sb_startProcess sb (markerReadCommand (ext_R2_MOUNT_PATH sb))) w2 = (Inr tproc, w3) \<and>
    await (WaitForProcess tproc 5000 None) (ext_waitForProcess sb tproc 5000 None) w3 =
      (Inr (), w4) \<and>
    await (GetLogs tproc) (proc_getLogs sb tproc) w4 =
      (Inr \<lparr>logs_stdout = Some marker, logs_stderr = err\<rparr>, w5) \<longrightarrow>
    (\<exists>r w'. runSync sb d w = (Inr r, w') \<and>
       (success r \<longleftrightarrow> date_prefix_shape (trim marker)) \<and>
       (success r \<longrightarrow> lastSync r = Some (trim marker)))) \<and>
   (runSync sb d w = (Inr r, w') \<and> success r \<longrightarrow>
      (\<exists>t. lastSync r = Some t \<and> date_prefix_shape t))\<close>
proof -
  have a: \<open>markerAccepted (Some s) \<longleftrightarrow> date_prefix_shape s\<close> for s
    by (cases s) (auto simp: markerAccepted_def matchesDatePrefix_shape[symmetric])
  have b: \<open>runSync sb d w = (Inr r, w') \<and> success r \<longrightarrow>
      (\<exists>t. lastSync r = Some t \<and> date_prefix_shape t)\<close>
  proof
    assume h: \<open>runSync sb d w = (Inr r, w') \<and> success r\<close>
    then have \<open>markerAccepted (lastSync r)\<close> using runSync_success by blast
    then show \<open>\<exists>t. lastSync r = Some t \<and> date_prefix_shape t\<close>
      by (cases \<open>lastSync r\<close>) (simp_all add: markerAccepted_def matchesDatePrefix_shape)
  qed
  have c: \<open>markerAccepted (Some (trim ''2024-01-01T00:00:00+00:00''))\<close>
    by (simp add: markerAccepted_def trim_def isWhiteSpace_def isDigit_def)
  have d: \<open>\<not> markerAccepted (Some (trim ''not-a-date''))\<close>
    by (simp add: markerAccepted_def trim_def isWhiteSpace_def isDigit_def)
  have e: \<open>\<not> markerAccepted (Some (trim []))\<close>
    by (simp add: markerAccepted_def trim_def)
  have f: \<open>\<not> markerAccepted (Some (trim ''on 2024-01-01''))\<close>
    by (simp add: markerAccepted_def trim_def isWhiteSpace_def isDigit_def)
  have g: \<open>await (StartProcess (syncCmd d (ext_R2_MOUNT_PATH sb)))
      (sb_startProcess sb (syncCmd d (ext_R2_MOUNT_PATH sb))) w = (Inr proc, w1) \<and>
    await (WaitForProcess proc 30000 None) (ext_waitForProcess sb proc 30000 None) w1 =
      (Inr (), w2) \<and>
    await (StartProcess (markerReadCommand (ext_R2_MOUNT_PATH sb)))
      (sb_startProcess sb (markerReadCommand (ext_R2_MOUNT_PATH sb))) w2 = (Inr tproc, w3) \<and>
    await (WaitForProcess tproc 5000 None) (ext_waitForProcess sb tproc 5000 None) w3 =
      (Inr (), w4) \<and>
    await (GetLogs tproc) (proc_getLogs sb tproc) w4 =
      (Inr \<lparr>logs_stdout = Some marker, logs_stderr = err\<rparr>, w5) \<longrightarrow>
    (\<exists>r w'. runSync sb d w = (Inr r, w') \<and>
       (success r \<longleftrightarrow> date_prefix_shape (trim marker)) \<and>
       (success r \<longrightarrow> lastSync r = Some (trim marker)))\<close>
  proof (intro impI, elim conjE)
    assume h: \<open>await (StartProcess (syncCmd d (ext_R2_MOUNT_PATH sb)))
      (sb_startProcess sb (syncCmd d (ext_R2_MOUNT_PATH sb))) w = (Inr proc, w1)\<close>
      \<open>await (WaitForProcess proc 30000 None) (ext_waitForProcess sb proc 30000 None) w1 =
      (Inr (), w2)\<close>
      \<open>await (StartProcess (markerReadCommand (ext_R2_MOUNT_PATH sb)))
      (sb_startProcess sb (markerReadCommand (ext_R2_MOUNT_PATH sb))) w2 = (Inr tproc, w3)\<close>
      \<open>await (WaitForProcess tproc 5000 None) (ext_waitForProcess sb tproc 5000 None) w3 =
      (Inr (), w4)\<close>
      \<open>await (GetLogs tproc) (proc_getLogs sb tproc) w4 =
      (Inr \<lparr>logs_stdout = Some marker, logs_stderr = err\<rparr>, w5)\<close>
    from runSync_after_marker_read[OF h]
    show \<open>\<exists>r w'. runSync sb d w = (Inr r, w') \<and>
       (success r \<longleftrightarrow> date_prefix_shape (trim marker)) \<and>
       (success r \<longrightarrow> lastSync r = Some (trim marker))\<close>
      by (simp add: a)
  qed
  from a[of s] b c d e f g show ?thesis by blast
qed

text \<open>Witness for C8: a marker read that prints a date gives a success whose \<open>lastSync\<close>
  has the shape; a marker read that prints \<^verbatim>\<open>not-a-date\<close> gives a failure.\<close>

theorem marker_date_prefix_validation_witness:
  \<open>(\<exists>r w'. runSync (scripted legacy_script) ''/root/.clawdbot'' world0 = (Inr r, w') \<and>
      success r \<and> (\<exists>t. lastSync r = Some t \<and> date_prefix_shape t)) \<and>
   (\<exists>r w'. runSync (scripted bad_marker_script) ''/root/.openclaw'' world0 = (Inr r, w') \<and>
      \<not> success r)\<close>
proof -
  obtain r w' where
    r: \<open>runSync (scripted legacy_script) ''/root/.clawdbot'' world0 = (Inr r, w')\<close>
    and s: \<open>success r\<close>
    using legacy_runSync[of world0] by auto
  have v: \<open>runSync (scripted legacy_script) ''/root/.clawdbot'' world0 = (Inr r, w') \<and> success r \<longrightarrow>
      (\<exists>t. lastSync r = Some t \<and> date_prefix_shape t)\<close>
    by (rule marker_date_prefix_validation[THEN conjunct2, THEN conjunct2, THEN conjunct2,
          THEN conjunct2, THEN conjunct2, THEN conjunct2])
  let ?sb = \<open>scripted bad_marker_script\<close>
  let ?cmd = \<open>syncCmd ''/root/.openclaw'' ''/data/moltbot''\<close>
  let ?cat = \<open>markerReadCommand ''/data/moltbot''\<close>
  obtain w1 where a1: \<open>await (StartProcess (syncCmd ''/root/.openclaw'' (ext_R2_MOUNT_PATH ?sb)))
      (sb_startProcess ?sb (syncCmd ''/root/.openclaw'' (ext_R2_MOUNT_PATH ?sb))) world0 = (Inr ?cmd, w1)\<close>
    by (simp add: scripted_await)
  obtain w2 where a2: \<open>await (WaitForProcess ?cmd 30000 None)
      (ext_waitForProcess ?sb ?cmd 30000 None) w1 = (Inr (), w2)\<close>
    by (simp add: scripted_await)
  obtain w3 where a3: \<open>await (StartProcess (markerReadCommand (ext_R2_MOUNT_PATH ?sb)))
      (sb_startProcess ?sb (markerReadCommand (ext_R2_MOUNT_PATH ?sb))) w2 = (Inr ?cat, w3)\<close>
    by (simp add: scripted_await)
  obtain w4 where a4: \<open>await (WaitForProcess ?cat 5000 None)
      (ext_waitForProcess ?sb ?cat 5000 None) w3 = (Inr (), w4)\<close>
    by (simp add: scripted_await)
  obtain w5 where a5: \<open>await (GetLogs ?cat) (proc_getLogs ?sb ?cat) w4 =
      (Inr \<lparr>logs_stdout = Some ''not-a-date'', logs_stderr = Some []\<rparr>, w5)\<close>
    by (simp add: scripted_await bad_marker_script_def script_of_def completed_def literal_commands)
  have n: \<open>\<not> date_prefix_shape (trim ''not-a-date'')\<close>
    by (simp add: matchesDatePrefix_shape[symmetric] trim_def isWhiteSpace_def isDigit_def)
  from marker_date_prefix_validation[THEN conjunct2, THEN conjunct2, THEN conjunct2,
          THEN conjunct2, THEN conjunct2, THEN conjunct1, rule_format, OF conjI[OF a1 conjI[OF a2 conjI[OF a3 conjI[OF a4 a5]]]]]
  obtain r2 w2' where \<open>runSync ?sb ''/root/.openclaw'' world0 = (Inr r2, w2')\<close>
    and \<open>success r2 \<longleftrightarrow> date_prefix_shape (trim ''not-a-date'')\<close>
    by blast
  with n r s v show ?thesis by blast
qed

text \<open>
  \<^bold>\<open>C3\<close> (as amended). The cap is applied where a command result is formatted for the
  diagnostics, not where it is produced. \<^verbatim>\<open>truncateOutput\<close> leaves a string of at most
  2000 characters unchanged and turns a longer one into its first 2000 characters
  followed by the marker \<^verbatim>\<open>\n...[truncated]\<close>; \<^verbatim>\<open>formatCommandResult\<close> applies it to stdout
  and to stderr, each on its own. The \<^verbatim>\<open>CommandResult\<close> returned by
  \<^verbatim>\<open>runCommandWithDetails\<close> carries the stdout and stderr of \<^verbatim>\<open>getLogs\<close> as they are (the
  empty string for an undefined stream).
\<close>

theorem truncation_in_diagnostics_only:
  \<open>(length v \<le> 2000 \<longrightarrow> truncateOutput v = v) \<and>
   (2000 < length v \<longrightarrow>
      truncateOutput v = take 2000 v @ ''\<newline>...[truncated]'' \<and> length (take 2000 v) = 2000) \<and>
   map_of (formatCommandResult r) ''stdout'' = Some (JStr (truncateOutput (stdout r))) \<and>
   map_of (formatCommandResult r) ''stderr'' = Some (JStr (truncateOutput (stderr r))) \<and>
   (runCommandWithDetails sb cmd t w = (Inr res, w') \<longrightarrow>
      (\<exists>proc tm x logs x' dt.
         proc_getLogs sb proc tm x = (Inr logs, x', dt) \<and>
         stdout res = (case logs_stdout logs of None \<Rightarrow> [] | Some s \<Rightarrow> s) \<and>
         stderr res = (case logs_stderr logs of None \<Rightarrow> [] | Some s \<Rightarrow> s)))\<close>
proof -
  have a: \<open>length v \<le> 2000 \<longrightarrow> truncateOutput v = v\<close>
    by (simp add: truncateOutput_def MAX_LOG_CHARS_def)
  have b: \<open>2000 < length v \<longrightarrow>
      truncateOutput v = take 2000 v @ ''\<newline>...[truncated]'' \<and> length (take 2000 v) = 2000\<close>
    by (simp add: truncateOutput_def MAX_LOG_CHARS_def)
  have c: \<open>map_of (formatCommandResult r) ''stdout'' = Some (JStr (truncateOutput (stdout r)))\<close>
    \<open>map_of (formatCommandResult r) ''stderr'' = Some (JStr (truncateOutput (stderr r)))\<close>
    by (simp_all add: formatCommandResult_def)
  from a b c runCommandWithDetails_logs show ?thesis by blast
qed

text \<open>Counterexample to C3 as stated: a command prints 2500 characters, and the stdout
  of the \<^verbatim>\<open>CommandResult\<close> is those 2500 characters, with no marker.\<close>

theorem command_result_not_capped:
  \<open>runCommandWithDetails (scripted noisy_script) ''cat big.log'' 5000 world0 =
     (Inr \<lparr>command = ''cat big.log'', status = ''completed'', exitCode = Some 0,
           stdout = replicate 2500 (CHR ''x''), stderr = [], durationMs = 12,
           didComplete = True\<rparr>,
      \<lparr>clock = 12, ext = (),
       calls = [StartProcess ''cat big.log'', WaitForProcess ''cat big.log'' 5000 (Some 200),
                GetLogs ''cat big.log'']\<rparr>) \<and>
   length (replicate 2500 (CHR ''x'')) = 2500\<close>
  by (simp add: scripted_run noisy_script_def completed_def world0_def POLL_INTERVAL_MS_def)

text \<open>Witness for C3: 2500 characters become 2000 and the marker, 1999 stay, and the
  formatted stdout of the 2500-character result is the truncated one.\<close>

theorem truncation_in_diagnostics_only_witness:
  \<open>truncateOutput (replicate 2500 (CHR ''x'')) =
     replicate 2000 (CHR ''x'') @ ''\<newline>...[truncated]'' \<and>
   truncateOutput (replicate 1999 (CHR ''x'')) = replicate 1999 (CHR ''x'') \<and>
   (\<exists>r :: CommandResult. map_of (formatCommandResult r) ''stdout'' =
          Some (JStr (replicate 2000 (CHR ''x'') @ ''\<newline>...[truncated]'')) \<and>
        stdout r = replicate 2500 (CHR ''x''))\<close>
proof -
  have a: \<open>truncateOutput (replicate 2500 (CHR ''x'')) =
     replicate 2000 (CHR ''x'') @ ''\<newline>...[truncated]''\<close>
    using truncation_in_diagnostics_only[of \<open>replicate 2500 (CHR ''x'')\<close>,
        THEN conjunct2, THEN conjunct1]
    by simp
  have b: \<open>truncateOutput (replicate 1999 (CHR ''x'')) = replicate 1999 (CHR ''x'')\<close>
    using truncation_in_diagnostics_only[of \<open>replicate 1999 (CHR ''x'')\<close>, THEN conjunct1]
    by simp
  obtain r :: CommandResult and w' where
    r: \<open>runCommandWithDetails (scripted noisy_script) ''cat big.log'' 5000 world0 = (Inr r, w')\<close>
    and s: \<open>stdout r = replicate 2500 (CHR ''x'')\<close>
    by (simp add: scripted_run noisy_script_def completed_def)
  have \<open>map_of (formatCommandResult r) ''stdout'' = Some (JStr (truncateOutput (stdout r)))\<close>
    using truncation_in_diagnostics_only[of _ r, THEN conjunct2, THEN conjunct2, THEN conjunct1] .
  with a b s show ?thesis by auto
qed

text \<open>
  \<^bold>\<open>C9\<close> (as amended). For either config directory and a mount path without spaces that
  does not begin with a dash, the pipeline command is the four rsync stages and the
  marker stage joined by \<^verbatim>\<open>&&\<close>, and the options of the rsync calls are exactly these.
  Every stage has \<^verbatim>\<open>-r --no-times --delete\<close>: it mirrors the source, deletes what the
  source lacks, and has no option that preserves times. The config stage alone excludes
  \<^verbatim>\<open>*.lock\<close>, \<^verbatim>\<open>*.log\<close> and \<^verbatim>\<open>*.tmp\<close>; the two workspace stages exclude \<^verbatim>\<open>skills\<close> and
  nothing else; the skills stage excludes nothing.
\<close>

theorem rsync_stage_options:
  assumes \<open>d = ''/root/.openclaw'' \<or> d = ''/root/.clawdbot''\<close>
    and \<open>CHR '' '' \<notin> set m\<close> and \<open>\<not> prefix ''-'' m\<close>
  shows \<open>syncCmd d m = concat (map (\<lambda>stage. stage @ '' && '') (rsyncStages d m)) @ markerStage m \<and>
         rsyncOptions (configStage d m) =
           [''-r'', ''--no-times'', ''--delete'',
            excludeOption ''*.lock'', excludeOption ''*.log'', excludeOption ''*.tmp''] \<and>
         rsyncOptions (workspaceStage m) =
           [''-r'', ''--no-times'', ''--delete'', excludeOption ''skills''] \<and>
         rsyncOptions (legacyWorkspaceStage m) =
           [''-r'', ''--no-times'', ''--delete'', excludeOption ''skills''] \<and>
         rsyncOptions (skillsStage m) = [''-r'', ''--no-times'', ''--delete'']\<close>
proof -
  have j: \<open>syncCmd d m = concat (map (\<lambda>stage. stage @ '' && '') (rsyncStages d m)) @ markerStage m\<close>
    by (simp add: syncCmd_def rsyncStages_def)
  have d: \<open>CHR '' '' \<notin> set d\<close> \<open>\<not> prefix ''-'' d\<close>
    using assms(1) by auto
  have c: \<open>rsyncOptions (configStage d m) =
           [''-r'', ''--no-times'', ''--delete'',
            excludeOption ''*.lock'', excludeOption ''*.log'', excludeOption ''*.tmp'']\<close>
    using d assms(2,3)
    by (simp add: excludeOption_def rsyncOptions_def configStage_def splitSpaces_word_append
        no_dash_append)
  have w: \<open>rsyncOptions (workspaceStage m) =
           [''-r'', ''--no-times'', ''--delete'', excludeOption ''skills'']\<close>
    using assms(2,3)
    by (simp add: excludeOption_def rsyncOptions_def workspaceStage_def splitSpaces_word_append
        no_dash_append)
  have l: \<open>rsyncOptions (legacyWorkspaceStage m) =
           [''-r'', ''--no-times'', ''--delete'', excludeOption ''skills'']\<close>
    using assms(2,3)
    by (simp add: excludeOption_def rsyncOptions_def legacyWorkspaceStage_def
        splitSpaces_word_append no_dash_append)
  have s: \<open>rsyncOptions (skillsStage m) = [''-r'', ''--no-times'', ''--delete'']\<close>
    using assms(2,3)
    by (simp add: rsyncOptions_def skillsStage_def splitSpaces_word_append no_dash_append)
  from j c w l s show ?thesis by blast
qed

text \<open>Counterexample to C9 as stated: the workspace stage and the skills stage of the
  pipeline for the mount path \<^verbatim>\<open>/data/moltbot\<close> do not mention \<^verbatim>\<open>*.lock\<close> at all.\<close>

theorem workspace_stage_keeps_lock_files:
  \<open>\<not> str_includes (workspaceStage ''/data/moltbot'') ''*.lock'' \<and>
   \<not> str_includes (legacyWorkspaceStage ''/data/moltbot'') ''*.lock'' \<and>
   \<not> str_includes (skillsStage ''/data/moltbot'') ''*.lock'' \<and>
   rsyncStages ''/root/.openclaw'' ''/data/moltbot'' =
     [configStage ''/root/.openclaw'' ''/data/moltbot'', workspaceStage ''/data/moltbot'',
      legacyWorkspaceStage ''/data/moltbot'', skillsStage ''/data/moltbot'']\<close>
  by (simp add: workspaceStage_def legacyWorkspaceStage_def skillsStage_def rsyncStages_def)

text \<open>Witness for C9: the legacy config directory and the mount path \<^verbatim>\<open>/data/moltbot\<close>.\<close>

theorem rsync_stage_options_witness:
  \<open>rsyncOptions (configStage ''/root/.clawdbot'' ''/data/moltbot'') =
     [''-r'', ''--no-times'', ''--delete'',
      excludeOption ''*.lock'', excludeOption ''*.log'', excludeOption ''*.tmp''] \<and>
   rsyncOptions (workspaceStage ''/data/moltbot'') =
     [''-r'', ''--no-times'', ''--delete'', excludeOption ''skills''] \<and>
   rsyncOptions (skillsStage ''/data/moltbot'') = [''-r'', ''--no-times'', ''--delete'']\<close>
  using rsync_stage_options[of \<open>''/root/.clawdbot''\<close> \<open>''/data/moltbot''\<close>]
  by simp


end
